theory Spec2Isabelle
  imports Main "HOL-Library.Word"
begin

unbundle bit_operations_syntax

section \<open>Data model (frame.go, constants.go)\<close>

text \<open>
  Go's \<open>uint8\<close>, \<open>uint16\<close> and \<open>uint32\<close> are words of that width; \<open>int\<close> is taken
  to be 64 bits wide, and a slice length always fits it, so lengths and offsets are
  \<open>nat\<close> (or \<open>int\<close> where the source subtracts). A \<open>[]byte\<close> is the list of its
  elements; the capacity of a slice equals its length unless said otherwise.
\<close>

type_synonym uint8 = "8 word"
type_synonym uint16 = "16 word"
type_synonym uint32 = "32 word"

text \<open>
  An \<open>error\<close> built by \<open>fmt.Errorf\<close> is its format string (the formatted arguments are
  left out); a run-time panic is the other constructor.
\<close>

datatype error = Errorf string | Panic string

definition and_then :: "error + 'a \<Rightarrow> ('a \<Rightarrow> error + 'b) \<Rightarrow> error + 'b" where
  "and_then m k = (case m of Inl e \<Rightarrow> Inl e | Inr x \<Rightarrow> k x)"

record FrameHeader =
  Length :: uint32
  Type :: uint8
  Flags :: uint8
  StreamID :: uint32

text \<open>
  The frame structs embed \<open>FrameHeader\<close>. Field names that two structs share are
  prefixed with the struct's name.
\<close>

record DataFrame = FrameHeader +
  PadLen :: uint8
  Data :: "uint8 list"

record HeadersFrame = FrameHeader +
  Headers_PadLen :: uint8
  Exclusive :: bool
  StreamDependency :: uint32
  Weight :: uint8
  HeaderBlock :: "uint8 list"

record Setting =
  ID :: uint16
  Value :: uint32

record SettingsFrame = FrameHeader +
  Settings :: "Setting list"

text \<open>\<open>PingFrame.Data\<close> is a \<open>[8]byte\<close> array: a list that always has 8 elements.\<close>

record PingFrame = FrameHeader +
  Ping_Data :: "uint8 list"

record WindowUpdateFrame = FrameHeader +
  WindowSizeIncrement :: uint32

record RSTStreamFrame = FrameHeader +
  RST_ErrorCode :: uint32

record GoAwayFrame = FrameHeader +
  LastStreamID :: uint32
  ErrorCode :: uint32
  DebugData :: "uint8 list"

subsection \<open>Constants\<close>

definition FrameData :: uint8 where "FrameData = 0x0"
definition FrameHeaders :: uint8 where "FrameHeaders = 0x1"
definition FramePriority :: uint8 where "FramePriority = 0x2"
definition FrameRSTStream :: uint8 where "FrameRSTStream = 0x3"
definition FrameSettings :: uint8 where "FrameSettings = 0x4"
definition FramePushPromise :: uint8 where "FramePushPromise = 0x5"
definition FramePing :: uint8 where "FramePing = 0x6"
definition FrameGoWay :: uint8 where "FrameGoWay = 0x7"
definition FrameWindowUpdate :: uint8 where "FrameWindowUpdate = 0x8"
definition FrameContinuation :: uint8 where "FrameContinuation = 0x9"

definition FlagBit0 :: uint8 where "FlagBit0 = push_bit 0 1"
definition FlagBit2 :: uint8 where "FlagBit2 = push_bit 2 1"
definition FlagBit3 :: uint8 where "FlagBit3 = push_bit 3 1"
definition FlagBit5 :: uint8 where "FlagBit5 = push_bit 5 1"

definition FlagEndStream :: uint8 where "FlagEndStream = FlagBit0"
definition FlagEndHeaders :: uint8 where "FlagEndHeaders = FlagBit2"
definition FlagPadded :: uint8 where "FlagPadded = FlagBit3"
definition FlagPriority :: uint8 where "FlagPriority = FlagBit5"

section \<open>Slices and \<open>encoding/binary\<close>\<close>

text \<open>\<open>make([]byte, n)\<close>: n zero bytes.\<close>

definition make :: "nat \<Rightarrow> uint8 list" where
  "make n = replicate n 0"

text \<open>
  \<open>s[lo:hi]\<close> on a slice whose capacity is its length: panics unless
  \<open>lo \<le> hi \<le> cap(s)\<close>.
\<close>

definition slice :: "'a list \<Rightarrow> nat \<Rightarrow> nat \<Rightarrow> error + 'a list" where
  "slice s lo hi =
     (if lo \<le> hi \<and> hi \<le> length s then Inr (take (hi - lo) (drop lo s))
      else Inl (Panic ''slice bounds out of range''))"

text \<open>\<open>s[i]\<close> read and \<open>s[i] = v\<close>.\<close>

definition index :: "'a list \<Rightarrow> nat \<Rightarrow> error + 'a" where
  "index s i = (if i < length s then Inr (s ! i) else Inl (Panic ''index out of range''))"

definition set_index :: "'a list \<Rightarrow> nat \<Rightarrow> 'a \<Rightarrow> error + 'a list" where
  "set_index s i v =
     (if i < length s then Inr (s[i := v]) else Inl (Panic ''index out of range''))"

text \<open>
  \<open>copy(dst[lo:], src)\<close>, returning \<open>dst\<close> after the copy: \<open>min(len(dst) - lo, len(src))\<close>
  elements are overwritten from \<open>lo\<close> on; the slice expression panics when
  \<open>lo > len(dst)\<close>.
\<close>

definition copy :: "'a list \<Rightarrow> nat \<Rightarrow> 'a list \<Rightarrow> error + 'a list" where
  "copy dst lo src =
     (if lo \<le> length dst
      then Inr (take lo dst @ take (length dst - lo) src @ drop (lo + length src) dst)
      else Inl (Panic ''slice bounds out of range''))"

text \<open>The big-endian byte order of \<open>encoding/binary\<close>.\<close>

definition be16 :: "uint16 \<Rightarrow> uint8 list" where
  "be16 v = [ucast (drop_bit 8 v), ucast v]"

definition be32 :: "uint32 \<Rightarrow> uint8 list" where
  "be32 v = [ucast (drop_bit 24 v), ucast (drop_bit 16 v), ucast (drop_bit 8 v), ucast v]"

text \<open>
  \<open>binary.BigEndian.PutUint16(buf[lo:hi], v)\<close> and \<open>PutUint32\<close>, returning \<open>buf\<close> after
  the write: the slice expression is checked first, then the bounds check of the
  write itself (\<open>_ = b[1]\<close>, \<open>_ = b[3]\<close>).
\<close>

definition PutUint16 :: "uint8 list \<Rightarrow> nat \<Rightarrow> nat \<Rightarrow> uint16 \<Rightarrow> error + uint8 list" where
  "PutUint16 buf lo hi v =
     (if \<not> (lo \<le> hi \<and> hi \<le> length buf) then Inl (Panic ''slice bounds out of range'')
      else if hi - lo < 2 then Inl (Panic ''index out of range'')
      else Inr (take lo buf @ be16 v @ drop (lo + 2) buf))"

definition PutUint32 :: "uint8 list \<Rightarrow> nat \<Rightarrow> nat \<Rightarrow> uint32 \<Rightarrow> error + uint8 list" where
  "PutUint32 buf lo hi v =
     (if \<not> (lo \<le> hi \<and> hi \<le> length buf) then Inl (Panic ''slice bounds out of range'')
      else if hi - lo < 4 then Inl (Panic ''index out of range'')
      else Inr (take lo buf @ be32 v @ drop (lo + 4) buf))"

definition Uint16 :: "uint8 list \<Rightarrow> error + uint16" where
  "Uint16 b =
     (if length b < 2 then Inl (Panic ''index out of range'')
      else Inr (ucast (b ! 1) OR push_bit 8 (ucast (b ! 0))))"

definition Uint32 :: "uint8 list \<Rightarrow> error + uint32" where
  "Uint32 b =
     (if length b < 4 then Inl (Panic ''index out of range'')
      else Inr (ucast (b ! 3) OR push_bit 8 (ucast (b ! 2)) OR push_bit 16 (ucast (b ! 1))
                OR push_bit 24 (ucast (b ! 0))))"

section \<open>FrameHeader\<close>

text \<open>
  \<open>FrameHeader.Serialize\<close> fills a 9-byte buffer at constant indices, so no access can
  be out of range.
\<close>

definition FrameHeader_Serialize :: "'a FrameHeader_scheme \<Rightarrow> uint8 list" where
  "FrameHeader_Serialize h =
     [ucast (drop_bit 16 (Length h)), ucast (drop_bit 8 (Length h)), ucast (Length h),
      Type h, Flags h] @ be32 (StreamID h AND 0x7FFFFFFF)"

text \<open>
  \<open>ParseFrameHeader\<close>; the reads are guarded by the length check. On failure the
  source returns an empty header beside the error; the model returns the error.
\<close>

definition ParseFrameHeader :: "uint8 list \<Rightarrow> error + FrameHeader" where
  "ParseFrameHeader data =
     (if length data < 9
      then Inl (Errorf ''FRAME_SIZE_ERROR: frame header must be 9 bytes, got %d'')
      else and_then (slice data 5 9) (\<lambda>b. and_then (Uint32 b) (\<lambda>sid.
        Inr \<lparr>Length = push_bit 16 (ucast (data ! 0)) OR push_bit 8 (ucast (data ! 1))
                        OR ucast (data ! 2),
             Type = data ! 3,
             Flags = data ! 4,
             StreamID = sid AND (push_bit 31 1 - 1)\<rparr>)))"

definition hasPad :: "uint8 \<Rightarrow> bool" where
  "hasPad flags \<longleftrightarrow> flags AND FlagPadded \<noteq> 0"

definition hasPriority :: "uint8 \<Rightarrow> bool" where
  "hasPriority flags \<longleftrightarrow> flags AND FlagPriority \<noteq> 0"

section \<open>DataFrame\<close>

text \<open>
  \<open>Serialize\<close> has a pointer receiver and stores the computed length in it: the model
  returns the receiver after the call beside the buffer.
\<close>

definition DataFrame_Serialize :: "DataFrame \<Rightarrow> error + (DataFrame \<times> uint8 list)" where
  "DataFrame_Serialize f =
     (if StreamID f = 0
      then Inl (Errorf ''DATA_FRAME_ERROR: StreamID must be greater than zero'')
      else if Flags f AND FlagPadded \<noteq> 0 \<and> unat (PadLen f) > 255
      then Inl (Errorf ''DATA_FRAME_ERROR: PadLen must be <= 255'')
      else
        let payloadLength =
              (if Flags f AND FlagPadded \<noteq> 0
               then 1 + (of_nat (length (Data f)) :: uint32) + ucast (PadLen f)
               else of_nat (length (Data f)))
        in if payloadLength > 0xFFFFFF then Inl (Errorf [])
        else
          let f = f\<lparr>Length := payloadLength\<rparr>;
              header = FrameHeader_Serialize f;
              offset = length header;
              frame = make (offset + unat payloadLength)
          in and_then (copy frame 0 header) (\<lambda>frame.
             and_then (if Flags f AND FlagPadded \<noteq> 0
                       then and_then (set_index frame offset (PadLen f))
                              (\<lambda>frame. Inr (frame, offset + 1))
                       else Inr (frame, offset)) (\<lambda>(frame, offset).
             and_then (copy frame offset (Data f)) (\<lambda>frame.
             Inr (f, frame)))))"

definition ParseDataFrame :: "FrameHeader \<Rightarrow> uint8 list \<Rightarrow> error + DataFrame" where
  "ParseDataFrame header payload =
     (if Type header \<noteq> FrameData
      then Inl (Errorf ''DATA_FRAME_ERROR: expected frame type %d, got %d'')
      else
        let frame = FrameHeader.extend header (DataFrame.fields 0 [])
        in and_then
             (if Flags header AND FlagPadded \<noteq> 0
              then if length payload < 1
                   then Inl (Errorf ''DATA_FRAME_ERROR: pad is required'')
                   else and_then (index payload 0) (\<lambda>p.
                     if int (unat p) > int (length payload) - 1
                     then Inl (Errorf ''DATA_FRAME_ERROR: pad length out of range'')
                     else Inr (frame\<lparr>PadLen := p\<rparr>, 1))
              else Inr (frame, 0)) (\<lambda>(frame, offset).
             let dataLength = int (length payload) - int offset - int (unat (PadLen frame))
             in if dataLength < 0
                then Inl (Errorf ''DATA_FRAME_ERROR: data length out of range: %d'')
                else and_then (slice payload offset (offset + nat dataLength)) (\<lambda>src.
                     and_then (copy (make (nat dataLength)) 0 src) (\<lambda>data.
                     Inr (frame\<lparr>Data := data\<rparr>)))))"

section \<open>HeadersFrame\<close>

definition HeadersFrame_Serialize :: "HeadersFrame \<Rightarrow> error + (HeadersFrame \<times> uint8 list)" where
  "HeadersFrame_Serialize f =
     (if StreamID f = 0
      then Inl (Errorf ''HEADERS_FRAME_ERROR: frame must have non-zero stream ID'')
      else
        let payloadLength = (of_nat (length (HeaderBlock f)) :: uint32)
        in if hasPad (Flags f) \<and> unat (Headers_PadLen f) > 255
        then Inl (Errorf ''HEADERS_FRAME_ERROR: padLen is out of range: %d'')
        else
          let payloadLength =
                (if hasPad (Flags f) then 1 + ucast (Headers_PadLen f) else payloadLength);
              payloadLength =
                (if hasPriority (Flags f) then payloadLength + 5 else payloadLength)
          in if payloadLength > 0xFFFFFF
          then Inl (Errorf ''HEADERS_FRAME_ERROR: payloadLength is out of range: %d'')
          else
            let f = f\<lparr>Length := payloadLength\<rparr>;
                header = FrameHeader_Serialize f;
                offset = length header;
                frameLength = offset + unat payloadLength;
                frame = make frameLength
            in and_then (copy frame 0 header) (\<lambda>frame.
               and_then (if hasPad (Flags f)
                         then and_then (set_index frame offset (Headers_PadLen f))
                                (\<lambda>frame. Inr (frame, offset + 1))
                         else Inr (frame, offset)) (\<lambda>(frame, offset).
               and_then (if hasPriority (Flags f)
                         then
                           let dep = (if Exclusive f
                                      then StreamDependency f OR 0x80000000
                                      else StreamDependency f OR 0x7FFFFFFF)
                           in and_then (PutUint32 frame offset (offset + 4) dep) (\<lambda>frame.
                              and_then (set_index frame (offset + 4) (Weight f)) (\<lambda>frame.
                              Inr (frame, offset + 4 + 1)))
                         else Inr (frame, offset)) (\<lambda>(frame, offset).
               and_then (copy frame offset (HeaderBlock f)) (\<lambda>frame.
               Inr (f, frame))))))"

definition ParseHeadersFrame :: "FrameHeader \<Rightarrow> uint8 list \<Rightarrow> error + HeadersFrame" where
  "ParseHeadersFrame header payload =
     (let frame = FrameHeader.extend header (HeadersFrame.fields 0 False 0 0 [])
      in and_then
           (if hasPad (Flags header)
            then if length payload < 1
                 then Inl (Errorf ''HEADERS_FRAME_ERROR: pad is required'')
                 else and_then (index payload 0) (\<lambda>p.
                      Inr (frame\<lparr>Headers_PadLen := p\<rparr>, 1))
            else Inr (frame, 0)) (\<lambda>(frame, offset).
         and_then
           (if hasPriority (Flags header)
            then if length payload < offset + 5
                 then Inl (Errorf ''HEADERS_FRAME_ERROR: priority is required'')
                 else and_then (slice payload offset (offset + 4)) (\<lambda>b.
                      and_then (Uint32 b) (\<lambda>dep.
                      and_then (index payload (offset + 4)) (\<lambda>w.
                      Inr (frame\<lparr>Exclusive := (dep AND 0x80000000 \<noteq> 0),
                                 StreamDependency := dep AND 0x7FFFFFFF,
                                 Weight := w\<rparr>, offset + 4 + 1))))
            else Inr (frame, offset)) (\<lambda>(frame, offset).
         let headerBlockLength =
               int (length payload) - int offset - int (unat (Headers_PadLen frame))
         in if headerBlockLength < 0
            then Inl (Errorf
                   ''HEADERS_FRAME_ERROR: header block length must not be negative'')
            else and_then (slice payload offset (offset + nat headerBlockLength)) (\<lambda>hb.
                 Inr (frame\<lparr>HeaderBlock := hb\<rparr>)))))"

section \<open>SettingsFrame\<close>

text \<open>The \<open>range\<close> loop of \<open>SettingsFrame.Serialize\<close>, over the remaining settings.\<close>

fun SettingsFrame_Serialize_loop ::
  "Setting list \<Rightarrow> uint8 list \<Rightarrow> nat \<Rightarrow> error + uint8 list" where
  "SettingsFrame_Serialize_loop [] frame offset = Inr frame"
| "SettingsFrame_Serialize_loop (setting # rest) frame offset =
     (case PutUint16 frame offset (length frame) (ID setting) of
        Inl e \<Rightarrow> Inl e
      | Inr frame \<Rightarrow>
          (case PutUint32 frame (offset + 2) (length frame) (Value setting) of
             Inl e \<Rightarrow> Inl e
           | Inr frame \<Rightarrow> SettingsFrame_Serialize_loop rest frame (offset + 6)))"

definition SettingsFrame_Serialize ::
  "SettingsFrame \<Rightarrow> error + (SettingsFrame \<times> uint8 list)" where
  "SettingsFrame_Serialize f =
     (let size = length (Settings f);
          f = f\<lparr>Length := of_nat (size * 6)\<rparr>;
          header = FrameHeader_Serialize f;
          offset = length header;
          frame = make (offset + size * 6)
      in and_then (copy frame 0 header) (\<lambda>frame.
         and_then (SettingsFrame_Serialize_loop (Settings f) frame offset) (\<lambda>frame.
         Inr (f, frame))))"

text \<open>One iteration's reads in \<open>ParseSettingsFrame\<close>: the setting at \<open>offset\<close>.\<close>

definition read_Setting :: "uint8 list \<Rightarrow> nat \<Rightarrow> error + Setting" where
  "read_Setting payload offset =
     and_then (slice payload offset (offset + 2)) (\<lambda>b.
     and_then (Uint16 b) (\<lambda>i.
     and_then (slice payload (offset + 2) (offset + 6)) (\<lambda>b.
     and_then (Uint32 b) (\<lambda>v.
     Inr \<lparr>ID = i, Value = v\<rparr>))))"

text \<open>The \<open>for i := 0; i < len(settings); i++\<close> loop of \<open>ParseSettingsFrame\<close>.\<close>

function ParseSettingsFrame_loop ::
  "uint8 list \<Rightarrow> Setting list \<Rightarrow> nat \<Rightarrow> error + Setting list" where
  "ParseSettingsFrame_loop payload settings i =
     (if i < length settings
      then (case read_Setting payload (i * 6) of
              Inl e \<Rightarrow> Inl e
            | Inr s \<Rightarrow> ParseSettingsFrame_loop payload (settings[i := s]) (i + 1))
      else Inr settings)"
  by pat_completeness auto
termination
  by (relation "measure (\<lambda>(payload, settings, i). length settings - i)") auto

definition ParseSettingsFrame :: "FrameHeader \<Rightarrow> uint8 list \<Rightarrow> error + SettingsFrame" where
  "ParseSettingsFrame header payload =
     (if StreamID header \<noteq> 0
      then Inl (Errorf ''SETTINGS_FRAME_ERROR: streamID must be zero'')
      else if length payload mod 6 \<noteq> 0
      then Inl (Errorf ''SETTINGS_FRAME_ERROR: invalid payload length'')
      else
        let settings = replicate (length payload div 6) \<lparr>ID = 0, Value = 0\<rparr>
        in and_then (ParseSettingsFrame_loop payload settings 0) (\<lambda>settings.
           Inr (FrameHeader.extend header (SettingsFrame.fields settings))))"

section \<open>PingFrame\<close>

definition PingFrame_Serialize :: "PingFrame \<Rightarrow> error + (PingFrame \<times> uint8 list)" where
  "PingFrame_Serialize f =
     (if StreamID f \<noteq> 0
      then Inl (Errorf ''SETTINGS_FRAME_ERROR: streamID must be zero'')
      else
        let f = f\<lparr>Length := 8\<rparr>;
            header = FrameHeader_Serialize f;
            offset = length header;
            frame = make (offset + 8)
        in and_then (copy frame 0 header) (\<lambda>frame.
           and_then (copy frame offset (Ping_Data f)) (\<lambda>frame.
           Inr (f, frame))))"

definition ParsePingFrame :: "FrameHeader \<Rightarrow> uint8 list \<Rightarrow> error + PingFrame" where
  "ParsePingFrame header payload =
     (if Type header \<noteq> FramePing
      then Inl (Errorf ''PING_FRAME_ERROR: expected frame type %d, got %d'')
      else if StreamID header \<noteq> 0
      then Inl (Errorf ''PING_FRAME_ERROR: streamID must be zero'')
      else if length payload \<noteq> 8
      then Inl (Errorf ''PING_FRAME_ERROR: invalid payload length: %d'')
      else and_then (copy (make 8) 0 payload) (\<lambda>data.
           Inr (FrameHeader.extend header (PingFrame.fields data))))"

section \<open>WindowUpdateFrame\<close>

definition WindowUpdateFrame_Serialize ::
  "WindowUpdateFrame \<Rightarrow> error + (WindowUpdateFrame \<times> uint8 list)" where
  "WindowUpdateFrame_Serialize f =
     (if WindowSizeIncrement f = 0 \<or> WindowSizeIncrement f > 0x7FFFFFFF
      then Inl (Errorf ''WINDOW_UPDATE_FRAME_ERROR: invalid window size: %d'')
      else
        let f = f\<lparr>Length := 4\<rparr>;
            header = FrameHeader_Serialize f;
            offset = length header;
            frame = make (offset + 4)
        in and_then (copy frame 0 header) (\<lambda>frame.
           and_then (PutUint32 frame offset (length frame)
                       (WindowSizeIncrement f AND 0x7FFFFFFF)) (\<lambda>frame.
           Inr (f, frame))))"

definition ParseWindowUpdateFrame ::
  "FrameHeader \<Rightarrow> uint8 list \<Rightarrow> error + WindowUpdateFrame" where
  "ParseWindowUpdateFrame header payload =
     (if length payload < 4
      then Inl (Errorf ''WINDOW_UPDATE_FRAME_ERROR: invalid payload length: %d'')
      else if Type header \<noteq> FrameWindowUpdate
      then Inl (Errorf ''WINDOW_UPDATE_FRAME_ERROR: expected frame type %d, got %d'')
      else if Length header \<noteq> 4
      then Inl (Errorf ''WINDOW_UPDATE_FRAME_ERROR: invalid length: %d'')
      else and_then (Uint32 payload) (\<lambda>v.
        let increment = v AND 0x7FFFFFFF
        in if increment = 0
           then Inl (Errorf ''WINDOW_UPDATE_FRAME_ERROR: invalid increment value: %d'')
           else Inr (FrameHeader.extend header (WindowUpdateFrame.fields increment))))"

section \<open>RSTStreamFrame\<close>

definition RSTStreamFrame_Serialize ::
  "RSTStreamFrame \<Rightarrow> error + (RSTStreamFrame \<times> uint8 list)" where
  "RSTStreamFrame_Serialize f =
     (if RST_ErrorCode f = 0
      then Inl (Errorf ''RST_STREAM_FRAME_ERROR: streamID must be greater than zero'')
      else
        let f = f\<lparr>Length := 4\<rparr>;
            header = FrameHeader_Serialize f;
            offset = length header;
            frame = make (offset + 4)
        in and_then (copy frame 0 header) (\<lambda>frame.
           and_then (PutUint32 frame offset (length frame) (RST_ErrorCode f)) (\<lambda>frame.
           Inr (f, frame))))"

definition ParseRSTStreamFrame :: "FrameHeader \<Rightarrow> uint8 list \<Rightarrow> error + RSTStreamFrame" where
  "ParseRSTStreamFrame header payload =
     (if length payload < 4
      then Inl (Errorf ''RST_STREAMFRAME_ERROR: invalid payload length: %d'')
      else if Type header \<noteq> FrameRSTStream
      then Inl (Errorf ''RST_STREAMFRAME_ERROR: expected frame type %d, got %d'')
      else if Length header \<noteq> 4
      then Inl (Errorf ''RST_STREAMFRAME_ERROR: invalid length: %d'')
      else and_then (Uint32 payload) (\<lambda>v.
           Inr (FrameHeader.extend header (RSTStreamFrame.fields v))))"

section \<open>GoAwayFrame\<close>

text \<open>
  The second \<open>PutUint32\<close> of \<open>GoAwayFrame.Serialize\<close> runs after \<open>offset += 4\<close> and
  writes to \<open>frame[offset+4:offset+8]\<close>.
\<close>

definition GoAwayFrame_Serialize :: "GoAwayFrame \<Rightarrow> error + (GoAwayFrame \<times> uint8 list)" where
  "GoAwayFrame_Serialize f =
     (if StreamID f \<noteq> 0
      then Inl (Errorf ''GOWAYFRAME_FRAME_ERROR: streamID must be zero'')
      else
        let f = f\<lparr>Length := 8 + of_nat (length (DebugData f))\<rparr>;
            header = FrameHeader_Serialize f;
            offset = length header;
            frame = make (offset + unat (Length f))
        in and_then (copy frame 0 header) (\<lambda>frame.
           and_then (PutUint32 frame offset (offset + 4)
                       (LastStreamID f AND 0x7FFFFFFF)) (\<lambda>frame.
           let offset = offset + 4
           in and_then (PutUint32 frame (offset + 4) (offset + 8) (ErrorCode f)) (\<lambda>frame.
              let offset = offset + 4
              in and_then (copy frame offset (DebugData f)) (\<lambda>frame.
                 Inr (f, frame))))))"

text \<open>
  \<open>ParseGoAwayFrame\<close> slices \<open>payload\<close> up to \<open>header.Length\<close>, which Go checks against
  the capacity of \<open>payload\<close>, not its length: \<open>spare\<close> is what the backing array holds
  between the two (empty for a slice whose capacity is its length).
  \<open>make([]byte, header.Length-8)\<close> takes its size from a \<open>uint32\<close> subtraction, which
  wraps around.
\<close>

definition ParseGoAwayFrame ::
  "FrameHeader \<Rightarrow> uint8 list \<Rightarrow> uint8 list \<Rightarrow> error + GoAwayFrame" where
  "ParseGoAwayFrame header payload spare =
     (if length payload < 8
      then Inl (Errorf ''GOWAYFRAME_ERROR: invalid payload length: %d'')
      else if Type header \<noteq> FrameGoWay
      then Inl (Errorf ''GOWAYFRAME_ERROR: expected frame type %d, got %d'')
      else if StreamID header \<noteq> 0
      then Inl (Errorf ''GOWAYFRAME_ERROR: streamID must be zero'')
      else and_then (slice (payload @ spare) 0 4) (\<lambda>b.
           and_then (Uint32 b) (\<lambda>v.
           let lastStreamID = v AND 0x7FFFFFFF
           in and_then (slice (payload @ spare) 4 8) (\<lambda>b.
              and_then (Uint32 b) (\<lambda>errorCode.
              let debugData = make (unat (Length header - 8))
              in and_then
                   (if Length header > 8
                    then and_then (slice (payload @ spare) 8 (unat (Length header)))
                           (\<lambda>src. copy debugData 0 src)
                    else Inr debugData) (\<lambda>debugData.
                 Inr (FrameHeader.extend header
                        (GoAwayFrame.fields lastStreamID errorCode debugData))))))))"

section \<open>Serialize, then parse\<close>

text \<open>
  The receiving side of a serialized frame: its first 9 bytes go to \<open>ParseFrameHeader\<close>,
  the parsed header and the rest of the buffer go to the payload parser \<open>parse\<close>.
\<close>

definition reparse ::
  "(FrameHeader \<Rightarrow> uint8 list \<Rightarrow> error + 'f) \<Rightarrow> error + ('g \<times> uint8 list) \<Rightarrow> error + 'f" where
  "reparse parse r =
     and_then r (\<lambda>(f, frame).
     and_then (ParseFrameHeader (take 9 frame)) (\<lambda>header.
     parse header (drop 9 frame)))"

section \<open>Wire images\<close>

text \<open>
  What the serializers are shown below to write, as closed forms: the payload size and
  bytes of a DATA frame, the priority block of a HEADERS frame, the six bytes of a
  setting.
\<close>

definition DataFrame_size :: "DataFrame \<Rightarrow> nat" where
  "DataFrame_size f =
     (if Flags f AND FlagPadded \<noteq> 0 then 1 + length (Data f) + unat (PadLen f)
      else length (Data f))"

definition DataFrame_payload :: "DataFrame \<Rightarrow> uint8 list" where
  "DataFrame_payload f =
     (if Flags f AND FlagPadded \<noteq> 0
      then PadLen f # Data f @ replicate (unat (PadLen f)) 0
      else Data f)"

definition HeadersFrame_dep :: "HeadersFrame \<Rightarrow> uint32" where
  "HeadersFrame_dep f =
     (if Exclusive f then StreamDependency f OR 0x80000000
      else StreamDependency f OR 0x7FFFFFFF)"

definition HeadersFrame_priority :: "HeadersFrame \<Rightarrow> uint8 list" where
  "HeadersFrame_priority f =
     (if hasPriority (Flags f) then be32 (HeadersFrame_dep f) @ [Weight f] else [])"

definition Setting_bytes :: "Setting \<Rightarrow> uint8 list" where
  "Setting_bytes s = be16 (ID s) @ be32 (Value s)"

definition Settings_payload :: "Setting list \<Rightarrow> uint8 list" where
  "Settings_payload ss = concat (map Setting_bytes ss)"

section \<open>Basic facts\<close>

lemmas frame_consts =
  FrameData_def FrameHeaders_def FrameRSTStream_def FrameSettings_def FramePing_def
  FrameGoWay_def FrameWindowUpdate_def
  FlagPadded_def FlagPriority_def FlagBit3_def FlagBit5_def

lemma and_then_simps [simp]:
  "and_then (Inl e) k = Inl e"
  "and_then (Inr x) k = k x"
  by (simp_all add: and_then_def)

lemma replicate_numeral: "replicate (numeral k) x = x # replicate (pred_numeral k) x"
  by (simp add: numeral_eq_Suc)

lemma length_be [simp]: "length (be16 w) = 2" "length (be32 v) = 4"
  by (simp_all add: be16_def be32_def)

lemma Uint32_be32 [simp]: "Uint32 (be32 v) = Inr v"
proof -
  have "ucast (ucast v :: uint8) OR push_bit 8 (ucast (ucast (drop_bit 8 v) :: uint8))
        OR push_bit 16 (ucast (ucast (drop_bit 16 v) :: uint8))
        OR push_bit 24 (ucast (ucast (drop_bit 24 v) :: uint8)) = v" (is "?l = v")
  proof (rule bit_word_eqI)
    fix n assume "n < LENGTH(32)"
    then have n: "n < 32" by simp
    consider "n < 8" | "8 \<le> n" "n < 16" | "16 \<le> n" "n < 24" | "24 \<le> n"
      by linarith
    then show "bit ?l n = bit v n"
      using n by cases (auto simp: bit_simps)
  qed
  then show ?thesis by (simp add: Uint32_def be32_def)
qed

lemma Uint16_be16 [simp]: "Uint16 (be16 v) = Inr v"
proof -
  have "ucast (ucast v :: uint8) OR push_bit 8 (ucast (ucast (drop_bit 8 v) :: uint8)) = v"
    (is "?l = v")
  proof (rule bit_word_eqI)
    fix n assume "n < LENGTH(16)"
    then have n: "n < 16" by simp
    consider "n < 8" | "8 \<le> n" by linarith
    then show "bit ?l n = bit v n"
      using n by cases (auto simp: bit_simps)
  qed
  then show ?thesis by (simp add: Uint16_def be16_def)
qed

text \<open>The three length bytes of a header hold the low 24 bits of \<open>Length\<close>.\<close>

lemma Length_bytes:
  "push_bit 16 (ucast (ucast (drop_bit 16 v) :: uint8))
     OR push_bit 8 (ucast (ucast (drop_bit 8 v) :: uint8))
     OR ucast (ucast v :: uint8) = take_bit 24 (v :: uint32)" (is "?l = _")
proof (rule bit_word_eqI)
  fix n assume "n < LENGTH(32)"
  then have n: "n < 32" by simp
  consider "n < 8" | "8 \<le> n" "n < 16" | "16 \<le> n" "n < 24" | "24 \<le> n"
    by linarith
  then show "bit ?l n = bit (take_bit 24 v) n"
    using n by cases (auto simp: bit_simps)
qed

lemma mask31: "(v :: uint32) AND 0x7FFFFFFF = take_bit 31 v"
proof -
  have "(0x7FFFFFFF :: uint32) = mask 31" by (simp add: mask_eq_exp_minus_1)
  then show ?thesis by (simp add: take_bit_eq_mask)
qed

lemma take_bit_31_id: "(v :: uint32) \<le> 0x7FFFFFFF \<Longrightarrow> take_bit 31 v = v"
proof -
  assume "v \<le> 0x7FFFFFFF"
  then have "v < 2 ^ 31" by (simp add: word_le_nat_alt word_less_nat_alt)
  then show ?thesis by (simp add: take_bit_eq_mask less_mask_eq)
qed

lemma take_bit_24_id: "(v :: uint32) \<le> 0xFFFFFF \<Longrightarrow> take_bit 24 v = v"
proof -
  assume "v \<le> 0xFFFFFF"
  then have "v < 2 ^ 24" by (simp add: word_le_nat_alt word_less_nat_alt)
  then show ?thesis by (simp add: take_bit_eq_mask less_mask_eq)
qed

lemma length_FrameHeader_Serialize [simp]: "length (FrameHeader_Serialize h) = 9"
  by (simp add: FrameHeader_Serialize_def)

text \<open>
  Parsing a serialized header gives the header back with \<open>Length\<close> cut to 24 bits and
  \<open>StreamID\<close> to 31.
\<close>

lemma ParseFrameHeader_Serialize:
  "ParseFrameHeader (FrameHeader_Serialize h) =
     Inr \<lparr>Length = take_bit 24 (Length h), Type = Type h, Flags = Flags h,
          StreamID = take_bit 31 (StreamID h)\<rparr>"
proof -
  have "length (FrameHeader_Serialize h) = 9" by simp
  then show ?thesis
    by (simp add: ParseFrameHeader_def slice_def)
       (simp add: FrameHeader_Serialize_def Length_bytes mask31)
qed

section \<open>Closed forms of the codecs\<close>

lemma unat_of_nat32: "n < 2 ^ 32 \<Longrightarrow> unat (of_nat n :: uint32) = n"
  by (simp add: unat_of_nat)

lemma of_nat_le_24: "n < 2 ^ 32 \<Longrightarrow> (of_nat n :: uint32) \<le> 0xFFFFFF \<longleftrightarrow> n \<le> 0xFFFFFF"
  by (simp add: word_le_nat_alt unat_of_nat)

lemma DataFrame_Serialize_eq:
  assumes "StreamID f \<noteq> 0" and "DataFrame_size f \<le> 0xFFFFFF"
  shows "DataFrame_Serialize f =
           Inr (f\<lparr>Length := of_nat (DataFrame_size f)\<rparr>,
                FrameHeader_Serialize (f\<lparr>Length := of_nat (DataFrame_size f)\<rparr>)
                  @ DataFrame_payload f)"
proof -
  let ?n = "DataFrame_size f"
  have n32: "?n < 2 ^ 32" using assms(2) by simp
  have pl: "(if Flags f AND FlagPadded \<noteq> 0
             then 1 + (of_nat (length (Data f)) :: uint32) + ucast (PadLen f)
             else of_nat (length (Data f))) = of_nat ?n"
    by (simp add: DataFrame_size_def)
  have le: "\<not> (of_nat ?n :: uint32) > 0xFFFFFF"
    using of_nat_le_24 [OF n32] assms(2) by (simp add: not_less)
  have un: "unat (of_nat ?n :: uint32) = ?n" by (rule unat_of_nat32 [OF n32])
  have pad: "\<not> 255 < unat (PadLen f)"
    using unsigned_less [of "PadLen f", where 'a = nat] by simp
  show ?thesis
  proof (cases "Flags f AND FlagPadded \<noteq> 0")
    case True
    then have sz: "?n = Suc (length (Data f) + unat (PadLen f))"
      by (simp add: DataFrame_size_def)
    from True show ?thesis
      unfolding DataFrame_Serialize_def pl Let_def
      using assms(1) le un pad
      by (simp add: make_def copy_def set_index_def list_update_append sz DataFrame_payload_def)
  next
    case False
    then have sz: "?n = length (Data f)"
      by (simp add: DataFrame_size_def)
    from False show ?thesis
      unfolding DataFrame_Serialize_def pl Let_def
      using assms(1) le un
      by (simp add: make_def copy_def sz DataFrame_payload_def)
  qed
qed

lemma ParseDataFrame_payload:
  assumes "Type h = FrameData" and "Flags h = Flags f"
  shows "ParseDataFrame h (DataFrame_payload f) =
           Inr (FrameHeader.extend h
                  (DataFrame.fields (if Flags f AND FlagPadded \<noteq> 0 then PadLen f else 0)
                                    (Data f)))"
proof (cases "Flags f AND FlagPadded \<noteq> 0")
  case True
  with assms show ?thesis
    by (simp add: ParseDataFrame_def DataFrame_payload_def Let_def index_def slice_def
          make_def copy_def FrameHeader.extend_def DataFrame.fields_def)
next
  case False
  with assms show ?thesis
    by (simp add: ParseDataFrame_def DataFrame_payload_def Let_def index_def slice_def
          make_def copy_def FrameHeader.extend_def DataFrame.fields_def)
qed

lemma DataFrame_roundtrip:
  assumes "StreamID f \<noteq> 0" and "DataFrame_size f \<le> 0xFFFFFF" and "Type f = FrameData"
  shows "reparse ParseDataFrame (DataFrame_Serialize f) =
           Inr (f\<lparr>Length := of_nat (DataFrame_size f),
                   StreamID := take_bit 31 (StreamID f),
                   PadLen := (if Flags f AND FlagPadded \<noteq> 0 then PadLen f else 0)\<rparr>)"
proof -
  have n32: "DataFrame_size f < 2 ^ 32" using assms(2) by simp
  have "(of_nat (DataFrame_size f) :: uint32) \<le> 0xFFFFFF"
    using of_nat_le_24 [OF n32] assms(2) by simp
  then have tb: "take_bit 24 (of_nat (DataFrame_size f) :: uint32) = of_nat (DataFrame_size f)"
    by (rule take_bit_24_id)
  show ?thesis
    using assms(3)
    apply (simp add: DataFrame_Serialize_eq [OF assms(1,2)] reparse_def
        ParseFrameHeader_Serialize ParseDataFrame_payload tb)
    apply (cases f)
    apply (simp add: FrameHeader.extend_def DataFrame.fields_def)
    done
qed

lemma bit_top: "bit (0x80000000 :: uint32) n \<longleftrightarrow> n = 31"
proof -
  have e: "(0x80000000 :: uint32) = 2 ^ 31" by simp
  show ?thesis by (subst e, simp only: bit_exp_iff) auto
qed

lemma bit_low31: "bit (0x7FFFFFFF :: uint32) n \<longleftrightarrow> n < 31"
proof -
  have m: "(0x7FFFFFFF :: uint32) = mask 31" by (simp add: mask_eq_exp_minus_1)
  show ?thesis by (subst m, simp only: bit_mask_iff) auto
qed

lemma dep_exclusive:
  "(v OR 0x80000000) AND (0x80000000 :: uint32) \<noteq> 0"
  "(v OR 0x80000000) AND (0x7FFFFFFF :: uint32) = take_bit 31 v"
proof -
  have "bit (0x80000000 :: uint32) 31"
    by (simp only: bit_top)
  then have "bit ((v OR 0x80000000) AND (0x80000000 :: uint32)) 31"
    by (simp only: bit_and_iff bit_or_iff simp_thms)
  then show "(v OR 0x80000000) AND (0x80000000 :: uint32) \<noteq> 0"
    by auto
  show "(v OR 0x80000000) AND (0x7FFFFFFF :: uint32) = take_bit 31 v"
    by (rule bit_word_eqI)
       (auto simp only: bit_and_iff bit_or_iff bit_top bit_low31 bit_take_bit_iff)
qed

lemma dep_not_exclusive:
  "(v OR 0x7FFFFFFF) AND (0x7FFFFFFF :: uint32) = 0x7FFFFFFF"
  "(v OR 0x7FFFFFFF) AND (0x80000000 :: uint32) \<noteq> 0 \<longleftrightarrow> bit v 31"
proof -
  show "(v OR 0x7FFFFFFF) AND (0x7FFFFFFF :: uint32) = 0x7FFFFFFF"
    by (rule bit_word_eqI) (auto simp only: bit_and_iff bit_or_iff bit_low31)
  show "(v OR 0x7FFFFFFF) AND (0x80000000 :: uint32) \<noteq> 0 \<longleftrightarrow> bit v 31"
  proof
    assume "(v OR 0x7FFFFFFF) AND (0x80000000 :: uint32) \<noteq> 0"
    then obtain n where "bit ((v OR 0x7FFFFFFF) AND (0x80000000 :: uint32)) n"
      by (auto simp only: bit_eq_iff bit_0_eq)
    then show "bit v 31"
      by (auto simp only: bit_and_iff bit_or_iff bit_top bit_low31)
  next
    assume "bit v 31"
    then have "bit ((v OR 0x7FFFFFFF) AND (0x80000000 :: uint32)) 31"
      by (simp add: bit_and_iff bit_or_iff bit_top)
    then show "(v OR 0x7FFFFFFF) AND (0x80000000 :: uint32) \<noteq> 0"
      by auto
  qed
qed

lemma HeadersFrame_Serialize_unpadded:
  assumes "StreamID f \<noteq> 0" and "\<not> hasPad (Flags f)"
    and n: "n = length (HeaderBlock f) + (if hasPriority (Flags f) then 5 else 0)"
    and "n \<le> 0xFFFFFF"
  shows "HeadersFrame_Serialize f =
           Inr (f\<lparr>Length := of_nat n\<rparr>,
                FrameHeader_Serialize (f\<lparr>Length := of_nat n\<rparr>)
                  @ HeadersFrame_priority f @ HeaderBlock f)"
proof -
  have n32: "n < 2 ^ 32" using assms(4) by simp
  have pl: "(if hasPriority (Flags f) then (of_nat (length (HeaderBlock f)) :: uint32) + 5
             else of_nat (length (HeaderBlock f))) = of_nat n"
    by (simp add: n)
  have le: "\<not> (of_nat n :: uint32) > 0xFFFFFF"
    using of_nat_le_24 [OF n32] assms(4) by (simp add: not_less)
  have un: "unat (of_nat n :: uint32) = n" by (rule unat_of_nat32 [OF n32])
  show ?thesis
  proof (cases "hasPriority (Flags f)")
    case True
    then have sz: "n = length (HeaderBlock f) + 5" by (simp add: n)
    from True show ?thesis
      unfolding HeadersFrame_Serialize_def Let_def
      using assms(1,2) le un pl
      by (simp add: make_def copy_def set_index_def PutUint32_def list_update_append sz
            HeadersFrame_priority_def HeadersFrame_dep_def)
  next
    case False
    then have sz: "n = length (HeaderBlock f)" by (simp add: n)
    from False show ?thesis
      unfolding HeadersFrame_Serialize_def Let_def
      using assms(1,2) le un pl
      by (simp add: make_def copy_def sz HeadersFrame_priority_def)
  qed
qed

lemma ParseHeadersFrame_unpadded:
  assumes "Flags h = Flags f" and "\<not> hasPad (Flags f)"
  shows "ParseHeadersFrame h (HeadersFrame_priority f @ HeaderBlock f) =
           Inr (FrameHeader.extend h
                  (if hasPriority (Flags f)
                   then HeadersFrame.fields 0 (HeadersFrame_dep f AND 0x80000000 \<noteq> 0)
                          (HeadersFrame_dep f AND 0x7FFFFFFF) (Weight f) (HeaderBlock f)
                   else HeadersFrame.fields 0 False 0 0 (HeaderBlock f)))"
proof (cases "hasPriority (Flags f)")
  case True
  with assms show ?thesis
    by (simp add: ParseHeadersFrame_def HeadersFrame_priority_def Let_def index_def slice_def
          nth_append FrameHeader.extend_def HeadersFrame.fields_def)
next
  case False
  with assms show ?thesis
    by (simp add: ParseHeadersFrame_def HeadersFrame_priority_def Let_def slice_def
          FrameHeader.extend_def HeadersFrame.fields_def)
qed

lemma HeadersFrame_roundtrip_unpadded:
  assumes "StreamID f \<noteq> 0" and "\<not> hasPad (Flags f)"
    and n: "n = length (HeaderBlock f) + (if hasPriority (Flags f) then 5 else 0)"
    and "n \<le> 0xFFFFFF"
  shows "reparse ParseHeadersFrame (HeadersFrame_Serialize f) =
           Inr (if hasPriority (Flags f)
                then f\<lparr>Length := of_nat n, StreamID := take_bit 31 (StreamID f),
                       Headers_PadLen := 0,
                       Exclusive := (HeadersFrame_dep f AND 0x80000000 \<noteq> 0),
                       StreamDependency := HeadersFrame_dep f AND 0x7FFFFFFF\<rparr>
                else f\<lparr>Length := of_nat n, StreamID := take_bit 31 (StreamID f),
                       Headers_PadLen := 0, Exclusive := False, StreamDependency := 0,
                       Weight := 0\<rparr>)"
proof -
  have n32: "n < 2 ^ 32" using assms(4) by simp
  have "(of_nat n :: uint32) \<le> 0xFFFFFF"
    using of_nat_le_24 [OF n32] assms(4) by simp
  then have tb: "take_bit 24 (of_nat n :: uint32) = of_nat n"
    by (rule take_bit_24_id)
  show ?thesis
    using assms(2)
    apply (simp add: HeadersFrame_Serialize_unpadded [OF assms] reparse_def
        ParseFrameHeader_Serialize ParseHeadersFrame_unpadded tb)
    apply (cases f)
    apply (simp add: FrameHeader.extend_def HeadersFrame.fields_def)
    done
qed

lemma length_Setting_bytes [simp]: "length (Setting_bytes s) = 6"
  by (simp add: Setting_bytes_def)

lemma length_Settings_payload [simp]: "length (Settings_payload ss) = 6 * length ss"
  by (induction ss) (simp_all add: Settings_payload_def)

lemma Settings_payload_simps [simp]:
  "Settings_payload [] = []"
  "Settings_payload (s # ss) = Setting_bytes s @ Settings_payload ss"
  "Settings_payload (xs @ ys) = Settings_payload xs @ Settings_payload ys"
  by (simp_all add: Settings_payload_def)

lemma SettingsFrame_Serialize_loop_eq:
  "length pre = offset \<Longrightarrow>
     SettingsFrame_Serialize_loop ss (pre @ replicate (6 * length ss) 0) offset
       = Inr (pre @ Settings_payload ss)"
proof (induction ss arbitrary: pre offset)
  case Nil
  then show ?case by simp
next
  case (Cons s ss)
  let ?k = "6 * length ss"
  have r: "replicate (6 * length (s # ss)) (0 :: uint8) = replicate 6 0 @ replicate ?k 0"
    by (simp flip: replicate_add)
  have p16: "PutUint16 (pre @ replicate 6 0 @ replicate ?k 0) offset
               (length (pre @ replicate 6 0 @ replicate ?k 0)) (ID s)
             = Inr (pre @ be16 (ID s) @ replicate 4 0 @ replicate ?k 0)"
    using Cons.prems by (simp add: PutUint16_def)
  have p32: "PutUint32 (pre @ be16 (ID s) @ replicate 4 0 @ replicate ?k 0) (offset + 2)
               (length (pre @ be16 (ID s) @ replicate 4 0 @ replicate ?k 0)) (Value s)
             = Inr ((pre @ Setting_bytes s) @ replicate ?k 0)"
    using Cons.prems by (simp add: PutUint32_def Setting_bytes_def)
  have "SettingsFrame_Serialize_loop ss ((pre @ Setting_bytes s) @ replicate ?k 0) (offset + 6)
          = Inr ((pre @ Setting_bytes s) @ Settings_payload ss)"
    by (rule Cons.IH) (simp add: Cons.prems)
  then show ?case
    unfolding r by (simp only: SettingsFrame_Serialize_loop.simps p16 p32 sum.case) simp
qed

lemma SettingsFrame_Serialize_eq:
  "SettingsFrame_Serialize f =
     Inr (f\<lparr>Length := of_nat (length (Settings f) * 6)\<rparr>,
          FrameHeader_Serialize (f\<lparr>Length := of_nat (length (Settings f) * 6)\<rparr>)
            @ Settings_payload (Settings f))"
proof -
  let ?f = "f\<lparr>Length := of_nat (length (Settings f) * 6)\<rparr>"
  have "SettingsFrame_Serialize_loop (Settings f)
          (FrameHeader_Serialize ?f @ replicate (6 * length (Settings f)) 0) 9
        = Inr (FrameHeader_Serialize ?f @ Settings_payload (Settings f))"
    by (rule SettingsFrame_Serialize_loop_eq) simp
  then show ?thesis
    by (simp add: SettingsFrame_Serialize_def Let_def make_def copy_def mult.commute)
qed

lemma Setting_eta: "\<lparr>ID = ID s, Value = Value s\<rparr> = (s :: Setting)"
  by (cases s) simp

lemma read_Setting_payload:
  assumes "i < length ss"
  shows "read_Setting (Settings_payload ss) (i * 6) = Inr (ss ! i)"
proof -
  have ss: "ss = take i ss @ ss ! i # drop (Suc i) ss"
    using assms by (simp add: id_take_nth_drop)
  have len: "length (Settings_payload (take i ss)) = i * 6"
    using assms by simp
  obtain pre post where pl: "Settings_payload ss = pre @ Setting_bytes (ss ! i) @ post"
    and lp: "length pre = i * 6"
    using ss len by (metis Settings_payload_simps(2,3))
  show ?thesis
    unfolding pl read_Setting_def using lp
    by (simp add: slice_def Setting_bytes_def Setting_eta)
qed

lemma ParseSettingsFrame_loop_eq:
  "length settings = length ss \<Longrightarrow> take i settings = take i ss \<Longrightarrow> i \<le> length ss \<Longrightarrow>
     ParseSettingsFrame_loop (Settings_payload ss) settings i = Inr ss"
proof (induction "Settings_payload ss" settings i rule: ParseSettingsFrame_loop.induct)
  case (1 settings i)
  show ?case
  proof (cases "i < length settings")
    case True
    then have i: "i < length ss" using "1.prems" by simp
    have rd: "read_Setting (Settings_payload ss) (i * 6) = Inr (ss ! i)"
      by (rule read_Setting_payload [OF i])
    have tk: "take (i + 1) (settings[i := ss ! i]) = take (i + 1) ss"
      using True i "1.prems"(2)
      by (simp add: take_Suc_conv_app_nth)
    have "ParseSettingsFrame_loop (Settings_payload ss) (settings[i := ss ! i]) (i + 1) = Inr ss"
      using "1.hyps" [OF True rd] "1.prems"(1) tk i by simp
    then show ?thesis
      using True rd by (subst ParseSettingsFrame_loop.simps) simp
  next
    case False
    then have "i = length ss" "settings = ss"
      using "1.prems" by auto
    then show ?thesis
      by (subst ParseSettingsFrame_loop.simps) simp
  qed
qed

lemma ParseSettingsFrame_payload:
  "StreamID h = 0 \<Longrightarrow>
     ParseSettingsFrame h (Settings_payload ss) = Inr (FrameHeader.extend h (SettingsFrame.fields ss))"
proof -
  assume "StreamID h = 0"
  moreover have "ParseSettingsFrame_loop (Settings_payload ss)
          (replicate (length ss) \<lparr>ID = 0, Value = 0\<rparr>) 0 = Inr ss"
    by (rule ParseSettingsFrame_loop_eq) simp_all
  ultimately show ?thesis
    by (simp add: ParseSettingsFrame_def Let_def)
qed

lemma SettingsFrame_roundtrip:
  "StreamID f = 0 \<Longrightarrow>
     reparse ParseSettingsFrame (SettingsFrame_Serialize f) =
       Inr (f\<lparr>Length := take_bit 24 (of_nat (length (Settings f) * 6))\<rparr>)"
  apply (simp add: SettingsFrame_Serialize_eq reparse_def ParseFrameHeader_Serialize
      ParseSettingsFrame_payload)
  apply (cases f)
  apply (simp add: FrameHeader.extend_def SettingsFrame.fields_def)
  done

lemma PingFrame_Serialize_eq:
  assumes "StreamID f = 0" and "length (Ping_Data f) = 8"
  shows "PingFrame_Serialize f =
           Inr (f\<lparr>Length := 8\<rparr>, FrameHeader_Serialize (f\<lparr>Length := 8\<rparr>) @ Ping_Data f)"
  using assms by (simp add: PingFrame_Serialize_def Let_def make_def copy_def)

lemma PingFrame_roundtrip:
  assumes "StreamID f = 0" and "length (Ping_Data f) = 8" and "Type f = FramePing"
  shows "reparse ParsePingFrame (PingFrame_Serialize f) = Inr (f\<lparr>Length := 8\<rparr>)"
  using assms
  apply (simp add: PingFrame_Serialize_eq reparse_def ParseFrameHeader_Serialize
      ParsePingFrame_def make_def copy_def)
  apply (cases f)
  apply (simp add: FrameHeader.extend_def PingFrame.fields_def)
  done

lemma WindowUpdateFrame_Serialize_eq:
  "WindowUpdateFrame_Serialize f =
     (if WindowSizeIncrement f = 0 \<or> WindowSizeIncrement f > 0x7FFFFFFF
      then Inl (Errorf ''WINDOW_UPDATE_FRAME_ERROR: invalid window size: %d'')
      else Inr (f\<lparr>Length := 4\<rparr>,
                FrameHeader_Serialize (f\<lparr>Length := 4\<rparr>) @ be32 (WindowSizeIncrement f)))"
  by (auto simp add: WindowUpdateFrame_Serialize_def Let_def copy_def make_def PutUint32_def
        mask31 take_bit_31_id not_less)

lemma WindowUpdateFrame_roundtrip:
  assumes "WindowSizeIncrement f \<noteq> 0" and "WindowSizeIncrement f \<le> 0x7FFFFFFF"
    and "Type f = FrameWindowUpdate"
  shows "reparse ParseWindowUpdateFrame (WindowUpdateFrame_Serialize f) =
           Inr (f\<lparr>Length := 4, StreamID := take_bit 31 (StreamID f)\<rparr>)"
  using assms
  apply (simp add: WindowUpdateFrame_Serialize_eq reparse_def ParseFrameHeader_Serialize
      ParseWindowUpdateFrame_def mask31 take_bit_31_id not_less)
  apply (cases f)
  apply (simp add: FrameHeader.extend_def WindowUpdateFrame.fields_def)
  done

lemma RSTStreamFrame_Serialize_eq:
  "RSTStreamFrame_Serialize f =
     (if RST_ErrorCode f = 0
      then Inl (Errorf ''RST_STREAM_FRAME_ERROR: streamID must be greater than zero'')
      else Inr (f\<lparr>Length := 4\<rparr>,
                FrameHeader_Serialize (f\<lparr>Length := 4\<rparr>) @ be32 (RST_ErrorCode f)))"
  by (simp add: RSTStreamFrame_Serialize_def Let_def copy_def make_def PutUint32_def)

lemma RSTStreamFrame_roundtrip:
  assumes "RST_ErrorCode f \<noteq> 0" and "Type f = FrameRSTStream"
  shows "reparse ParseRSTStreamFrame (RSTStreamFrame_Serialize f) =
           Inr (f\<lparr>Length := 4, StreamID := take_bit 31 (StreamID f)\<rparr>)"
  using assms
  apply (simp add: RSTStreamFrame_Serialize_eq reparse_def ParseFrameHeader_Serialize
      ParseRSTStreamFrame_def)
  apply (cases f)
  apply (simp add: FrameHeader.extend_def RSTStreamFrame.fields_def)
  done

lemma DataFrame_Serialize_ok:
  assumes "DataFrame_Serialize f = Inr r" and "length (Data f) \<le> 0xFFFFFF"
  shows "StreamID f \<noteq> 0 \<and> DataFrame_size f \<le> 0xFFFFFF"
proof -
  have pad: "unat (PadLen f) < 256"
    using unsigned_less [of "PadLen f", where 'a = nat] by simp
  then have n32: "DataFrame_size f < 2 ^ 32"
    using assms(2) by (simp add: DataFrame_size_def)
  have pl: "(if Flags f AND FlagPadded \<noteq> 0
             then 1 + (of_nat (length (Data f)) :: uint32) + ucast (PadLen f)
             else of_nat (length (Data f))) = of_nat (DataFrame_size f)"
    by (simp add: DataFrame_size_def)
  have sid: "StreamID f \<noteq> 0"
    using assms(1) by (auto simp: DataFrame_Serialize_def)
  have "\<not> (of_nat (DataFrame_size f) :: uint32) > 0xFFFFFF"
    using assms(1) sid unfolding DataFrame_Serialize_def pl Let_def
    by (auto split: if_splits)
  then have "DataFrame_size f \<le> 0xFFFFFF"
    using of_nat_le_24 [OF n32] by (simp add: not_less)
  with sid show ?thesis by simp
qed

lemma HeadersFrame_Serialize_ok:
  assumes "HeadersFrame_Serialize f = Inr r" and "length (HeaderBlock f) \<le> 0xFFFFFF"
    and "\<not> hasPad (Flags f)"
  shows "StreamID f \<noteq> 0
         \<and> length (HeaderBlock f) + (if hasPriority (Flags f) then 5 else 0) \<le> 0xFFFFFF"
proof -
  let ?n = "length (HeaderBlock f) + (if hasPriority (Flags f) then 5 else 0)"
  have n32: "?n < 2 ^ 32"
    using assms(2) by simp
  have pl: "(if hasPriority (Flags f) then (of_nat (length (HeaderBlock f)) :: uint32) + 5
             else of_nat (length (HeaderBlock f))) = of_nat ?n"
    by simp
  have sid: "StreamID f \<noteq> 0"
    using assms(1) by (auto simp: HeadersFrame_Serialize_def)
  have "\<not> (of_nat ?n :: uint32) > 0xFFFFFF"
    using assms(1,3) sid unfolding HeadersFrame_Serialize_def Let_def
    by (simp add: pl split: if_splits)
  then have "?n \<le> 0xFFFFFF"
    using of_nat_le_24 [OF n32] by (simp add: not_less)
  with sid show ?thesis by simp
qed

text \<open>
  What the PADDED branch of \<open>HeadersFrame.Serialize\<close>, \<open>GoAwayFrame.Serialize\<close> and
  \<open>ParseGoAwayFrame\<close> do in general.
\<close>

lemma GoAwayFrame_Serialize_short_debug_data:
  assumes "StreamID f = 0" and "length (DebugData f) < 4"
  shows "GoAwayFrame_Serialize f = Inl (Panic ''slice bounds out of range'')"
proof -
  have "unat (8 + of_nat (length (DebugData f)) :: uint32) = 8 + length (DebugData f)"
    using assms(2) by (simp add: unat_word_ariths unat_of_nat)
  then show ?thesis
    using assms by (simp add: GoAwayFrame_Serialize_def Let_def make_def copy_def PutUint32_def)
qed

lemma GoAwayFrame_Serialize_long_debug_data:
  assumes "StreamID f = 0" and "4 \<le> length (DebugData f)"
    and "length (DebugData f) < 2 ^ 32 - 8"
  shows "GoAwayFrame_Serialize f =
           Inr (f\<lparr>Length := 8 + of_nat (length (DebugData f))\<rparr>,
                FrameHeader_Serialize (f\<lparr>Length := 8 + of_nat (length (DebugData f))\<rparr>)
                  @ be32 (LastStreamID f AND 0x7FFFFFFF) @ [0, 0, 0, 0] @ DebugData f)"
proof -
  have "unat (8 + of_nat (length (DebugData f)) :: uint32) = 8 + length (DebugData f)"
    using assms(3) by (simp add: unat_word_ariths unat_of_nat)
  then show ?thesis
    using assms(1,2)
    by (simp add: GoAwayFrame_Serialize_def Let_def make_def copy_def PutUint32_def
          replicate_add [symmetric] replicate_numeral)
qed

lemma HeadersFrame_Serialize_padded_Length:
  assumes "hasPad (Flags f)" and "HeadersFrame_Serialize f = Inr (f', frame)"
  shows "Length f' = 1 + ucast (Headers_PadLen f) + (if hasPriority (Flags f) then 5 else 0)"
  using assms
  by (auto simp: HeadersFrame_Serialize_def Let_def and_then_def
           split: if_splits sum.splits prod.splits)

lemma ParseGoAwayFrame_Length_beyond_capacity:
  assumes "8 \<le> length payload" and "Type header = FrameGoWay" and "StreamID header = 0"
    and "length payload + length spare < unat (Length header)"
  shows "ParseGoAwayFrame header payload spare = Inl (Panic ''slice bounds out of range'')"
proof -
  have "8 < unat (Length header)" using assms(1,4) by linarith
  then have "Length header > 8" by (simp add: word_less_nat_alt)
  then show ?thesis
    using assms by (simp add: ParseGoAwayFrame_def slice_def Uint32_def Let_def)
qed

text \<open>Which payloads the HEADERS and SETTINGS parsers accept.\<close>

lemma read_Setting_ok:
  "offset + 6 \<le> length payload \<Longrightarrow> \<exists>s. read_Setting payload offset = Inr s"
  by (simp add: read_Setting_def slice_def Uint16_def Uint32_def)

lemma ParseSettingsFrame_loop_ok:
  "length payload = 6 * length settings \<Longrightarrow>
     \<exists>ss. ParseSettingsFrame_loop payload settings i = Inr ss"
proof (induction payload settings i rule: ParseSettingsFrame_loop.induct)
  case (1 payload settings i)
  show ?case
  proof (cases "i < length settings")
    case True
    then have "i * 6 + 6 \<le> length payload" using "1.prems" by simp
    then obtain s where rd: "read_Setting payload (i * 6) = Inr s"
      using read_Setting_ok by blast
    have "\<exists>ss. ParseSettingsFrame_loop payload (settings[i := s]) (i + 1) = Inr ss"
      using "1.IH" [OF True rd] "1.prems" by simp
    then show ?thesis
      using True rd by (subst ParseSettingsFrame_loop.simps) simp
  next
    case False
    then show ?thesis
      by (subst ParseSettingsFrame_loop.simps) simp
  qed
qed

lemma ParseSettingsFrame_ok:
  assumes "StreamID h = 0" and "length payload mod 6 = 0"
  shows "\<exists>f. ParseSettingsFrame h payload = Inr f \<and> Type f = Type h"
proof -
  have "length payload = 6 * length (replicate (length payload div 6) \<lparr>ID = 0, Value = 0\<rparr>)"
    using assms(2) by auto
  then obtain ss where
    "ParseSettingsFrame_loop payload (replicate (length payload div 6) \<lparr>ID = 0, Value = 0\<rparr>) 0
       = Inr ss"
    using ParseSettingsFrame_loop_ok by blast
  then show ?thesis
    using assms by (simp add: ParseSettingsFrame_def Let_def FrameHeader.extend_def)
qed

lemma ParseHeadersFrame_ok:
  assumes "(if hasPad (Flags h) then 1 else 0) + (if hasPriority (Flags h) then 5 else 0)
             + (if hasPad (Flags h) then unat (payload ! 0) else 0) \<le> length payload"
  shows "\<exists>f. ParseHeadersFrame h payload = Inr f \<and> Type f = Type h"
proof -
  let ?frame = "FrameHeader.extend h (HeadersFrame.fields 0 False 0 0 [])"
  let ?off1 = "if hasPad (Flags h) then 1 else 0 :: nat"
  let ?off2 = "?off1 + (if hasPriority (Flags h) then 5 else 0)"
  let ?pad = "if hasPad (Flags h) then payload ! 0 else 0"
  have ty [simp]: "Type ?frame = Type h" and pl0 [simp]: "Headers_PadLen ?frame = 0"
    by (simp_all add: FrameHeader.extend_def HeadersFrame.fields_def)
  have len: "?off2 + unat ?pad \<le> length payload"
    using assms by (simp split: if_splits)
  define frame1 where
    "frame1 = (if hasPad (Flags h) then ?frame\<lparr>Headers_PadLen := payload ! 0\<rparr> else ?frame)"
  have t1: "Type frame1 = Type h" and p1: "Headers_PadLen frame1 = ?pad"
    by (simp_all add: frame1_def)
  have s1: "(if hasPad (Flags h)
          then if length payload < 1
               then Inl (Errorf ''HEADERS_FRAME_ERROR: pad is required'')
               else and_then (index payload 0) (\<lambda>p. Inr (?frame\<lparr>Headers_PadLen := p\<rparr>, 1))
          else Inr (?frame, 0)) = Inr (frame1, ?off1)"
  proof (cases "hasPad (Flags h)")
    case True
    then have "1 \<le> length payload" using len by (simp split: if_splits)
    then have "payload \<noteq> []" by auto
    with True show ?thesis by (simp add: index_def frame1_def)
  next
    case False
    then show ?thesis by (simp add: frame1_def)
  qed
  have "\<exists>frame2. (if hasPriority (Flags h)
          then if length payload < ?off1 + 5
               then Inl (Errorf ''HEADERS_FRAME_ERROR: priority is required'')
               else and_then (slice payload ?off1 (?off1 + 4)) (\<lambda>b.
                    and_then (Uint32 b) (\<lambda>dep.
                    and_then (index payload (?off1 + 4)) (\<lambda>w.
                    Inr (frame1\<lparr>Exclusive := (dep AND 0x80000000 \<noteq> 0),
                                StreamDependency := dep AND 0x7FFFFFFF,
                                Weight := w\<rparr>, ?off1 + 4 + 1))))
          else Inr (frame1, ?off1)) = Inr (frame2, ?off2)
        \<and> Type frame2 = Type h \<and> Headers_PadLen frame2 = ?pad"
  proof (cases "hasPriority (Flags h)")
    case True
    then have "?off1 + 5 \<le> length payload" using len by (simp split: if_splits)
    then have "\<not> length payload < ?off1 + 5" by linarith
    with True show ?thesis
      using t1 p1 by (simp add: slice_def Uint32_def index_def)
  next
    case False
    then show ?thesis using t1 p1 by simp
  qed
  then obtain frame2 where
    s2: "(if hasPriority (Flags h)
          then if length payload < ?off1 + 5
               then Inl (Errorf ''HEADERS_FRAME_ERROR: priority is required'')
               else and_then (slice payload ?off1 (?off1 + 4)) (\<lambda>b.
                    and_then (Uint32 b) (\<lambda>dep.
                    and_then (index payload (?off1 + 4)) (\<lambda>w.
                    Inr (frame1\<lparr>Exclusive := (dep AND 0x80000000 \<noteq> 0),
                                StreamDependency := dep AND 0x7FFFFFFF,
                                Weight := w\<rparr>, ?off1 + 4 + 1))))
          else Inr (frame1, ?off1)) = Inr (frame2, ?off2)"
    and t2: "Type frame2 = Type h" and p2: "Headers_PadLen frame2 = ?pad"
    by blast
  have hbl: "0 \<le> int (length payload) - int ?off2 - int (unat ?pad)"
    using len by linarith
  have hi: "?off2 + nat (int (length payload) - int ?off2 - int (unat ?pad)) \<le> length payload"
    using len by linarith
  have "ParseHeadersFrame h payload =
          Inr (frame2\<lparr>HeaderBlock :=
                 take (nat (int (length payload) - int ?off2 - int (unat ?pad)))
                   (drop ?off2 payload)\<rparr>)"
    unfolding ParseHeadersFrame_def Let_def s1 and_then_simps prod.case s2
    using hbl hi by (simp only: p2 slice_def and_then_simps) simp
  then show ?thesis
    using t2 by simp
qed

section \<open>The frame header\<close>

text \<open>
  C7. For every frame header, the stream-identifier bytes that \<open>FrameHeader.Serialize\<close>
  writes have the top (reserved) bit zero, whatever \<open>StreamID\<close> the caller supplied;
  \<open>ParseFrameHeader\<close> masks the reserved bit off the four stream-identifier bytes it
  reads; and a header with stream id \<open>0x80000001\<close>, serialized and parsed, has stream
  id 1.
\<close>

theorem C7_reserved_bit_stripped:
  "\<not> bit (FrameHeader_Serialize h ! 5) 7
   \<and> (9 \<le> length data \<longrightarrow>
        (\<exists>h' v. ParseFrameHeader data = Inr h' \<and> Uint32 (take 4 (drop 5 data)) = Inr v
           \<and> StreamID h' = v AND 0x7FFFFFFF \<and> \<not> bit (StreamID h') 31))
   \<and> (StreamID h = 0x80000001 \<longrightarrow>
        (\<exists>h'. ParseFrameHeader (FrameHeader_Serialize h) = Inr h' \<and> StreamID h' = 1))"
proof (intro conjI impI)
  show "\<not> bit (FrameHeader_Serialize h ! 5) 7"
    by (simp add: FrameHeader_Serialize_def be32_def mask31 bit_simps)
next
  assume "9 \<le> length data"
  then show "\<exists>h' v. ParseFrameHeader data = Inr h' \<and> Uint32 (take 4 (drop 5 data)) = Inr v
      \<and> StreamID h' = v AND 0x7FFFFFFF \<and> \<not> bit (StreamID h') 31"
    by (simp add: ParseFrameHeader_def slice_def Uint32_def mask31 bit_simps)
next
  assume "StreamID h = 0x80000001"
  then show "\<exists>h'. ParseFrameHeader (FrameHeader_Serialize h) = Inr h' \<and> StreamID h' = 1"
    by (simp add: ParseFrameHeader_Serialize)
qed

theorem C7_reserved_bit_stripped_witness:
  "\<not> bit (FrameHeader_Serialize
            \<lparr>Length = 5, Type = 0, Flags = 0, StreamID = 0x80000001\<rparr> ! 5) 7
   \<and> ParseFrameHeader [0, 0, 0, 0, 0, 0xFF, 0xFF, 0xFF, 0xFF]
       = Inr \<lparr>Length = 0, Type = 0, Flags = 0, StreamID = 0x7FFFFFFF\<rparr>
   \<and> ParseFrameHeader (FrameHeader_Serialize
         \<lparr>Length = 5, Type = 0, Flags = 0, StreamID = 0x80000001\<rparr>)
       = Inr \<lparr>Length = 5, Type = 0, Flags = 0, StreamID = 1\<rparr>"
  using C7_reserved_bit_stripped
          [of "\<lparr>Length = 5, Type = 0, Flags = 0, StreamID = 0x80000001\<rparr>"
              "[0, 0, 0, 0, 0, 0xFF, 0xFF, 0xFF, 0xFF]"]
  by (simp add: ParseFrameHeader_def slice_def Uint32_def FrameHeader_Serialize_def be32_def)

section \<open>DATA\<close>

text \<open>
  C6 (as the code has it). Serializing the DATA frame with stream id 1, flags 0 and the
  five ASCII bytes of "hello" succeeds, stores 5 in the header's length, and produces
  exactly the 14 bytes \<open>00 00 05 00 00 00 00 00 01 68 65 6C 6C 6F\<close>: a 3-byte length,
  type 0, flags 0, the 4-byte stream id 1, then the data.
\<close>

theorem C6_DataFrame_hello_bytes:
  "DataFrame_Serialize
       \<lparr>Length = 0, Type = 0, Flags = 0, StreamID = 1, PadLen = 0,
        Data = [0x68, 0x65, 0x6C, 0x6C, 0x6F]\<rparr>
   = Inr (\<lparr>Length = 5, Type = 0, Flags = 0, StreamID = 1, PadLen = 0,
           Data = [0x68, 0x65, 0x6C, 0x6C, 0x6F]\<rparr>,
          [0x00, 0x00, 0x05, 0x00, 0x00, 0x00, 0x00, 0x00, 0x01,
           0x68, 0x65, 0x6C, 0x6C, 0x6F])"
  by (simp add: DataFrame_Serialize_def FrameHeader_Serialize_def be32_def make_def copy_def
        FlagPadded_def FlagBit3_def Let_def)

text \<open>
  C6 as stated fails: the buffer is not the 15-byte sequence
  \<open>00 00 00 05 00 00 00 00 00 01 68 65 6C 6C 6F\<close>, which has one more leading zero
  byte than a 9-byte header allows.
\<close>

theorem C6_DataFrame_hello_counterexample:
  "map_sum id snd (DataFrame_Serialize
       \<lparr>Length = 0, Type = 0, Flags = 0, StreamID = 1, PadLen = 0,
        Data = [0x68, 0x65, 0x6C, 0x6C, 0x6F]\<rparr>)
   \<noteq> Inr [0x00, 0x00, 0x00, 0x05, 0x00, 0x00, 0x00, 0x00, 0x00, 0x01,
           0x68, 0x65, 0x6C, 0x6C, 0x6F]"
  by (simp add: DataFrame_Serialize_def FrameHeader_Serialize_def be32_def make_def copy_def
        FlagPadded_def FlagBit3_def Let_def)

section \<open>WINDOW_UPDATE\<close>

text \<open>
  C8 (as the code has it). \<open>WindowUpdateFrame.Serialize\<close> fails, with the error
  "WINDOW_UPDATE_FRAME_ERROR: invalid window size" (the flow-control error of the spec),
  exactly when the increment is 0 or above \<open>0x7FFFFFFF\<close>; otherwise it writes the
  increment itself, so a value above the 31-bit range is rejected and never masked.
  \<open>ParseWindowUpdateFrame\<close> fails whenever the masked increment read from the payload is
  0, with "invalid increment value" when the header is a WINDOW_UPDATE header of length 4.
  A frame with increment \<open>0x7FFFFFFF\<close> whose header type is WINDOW_UPDATE, which
  \<open>Serialize\<close> does not set and the parser checks, comes back from serializing and
  parsing with the same increment (and the same fields but the derived length and the
  reserved bit of the stream id).
\<close>

theorem C8_WindowUpdate_increment_range:
  "WindowUpdateFrame_Serialize f =
     (if WindowSizeIncrement f = 0 \<or> WindowSizeIncrement f > 0x7FFFFFFF
      then Inl (Errorf ''WINDOW_UPDATE_FRAME_ERROR: invalid window size: %d'')
      else Inr (f\<lparr>Length := 4\<rparr>,
                FrameHeader_Serialize (f\<lparr>Length := 4\<rparr>) @ be32 (WindowSizeIncrement f)))
   \<and> (Uint32 payload = Inr v \<and> v AND 0x7FFFFFFF = 0 \<longrightarrow>
        (\<exists>e. ParseWindowUpdateFrame header payload = Inl e)
        \<and> (Type header = FrameWindowUpdate \<and> Length header = 4 \<longrightarrow>
             ParseWindowUpdateFrame header payload
               = Inl (Errorf ''WINDOW_UPDATE_FRAME_ERROR: invalid increment value: %d'')))
   \<and> (WindowSizeIncrement f = 0x7FFFFFFF \<and> Type f = FrameWindowUpdate \<longrightarrow>
        reparse ParseWindowUpdateFrame (WindowUpdateFrame_Serialize f)
          = Inr (f\<lparr>Length := 4, StreamID := StreamID f AND 0x7FFFFFFF\<rparr>))"
proof (intro conjI impI)
  show "WindowUpdateFrame_Serialize f =
     (if WindowSizeIncrement f = 0 \<or> WindowSizeIncrement f > 0x7FFFFFFF
      then Inl (Errorf ''WINDOW_UPDATE_FRAME_ERROR: invalid window size: %d'')
      else Inr (f\<lparr>Length := 4\<rparr>,
                FrameHeader_Serialize (f\<lparr>Length := 4\<rparr>) @ be32 (WindowSizeIncrement f)))"
    by (rule WindowUpdateFrame_Serialize_eq)
next
  assume "Uint32 payload = Inr v \<and> v AND 0x7FFFFFFF = 0"
  then show "\<exists>e. ParseWindowUpdateFrame header payload = Inl e"
    by (simp add: ParseWindowUpdateFrame_def)
next
  assume a: "Uint32 payload = Inr v \<and> v AND 0x7FFFFFFF = 0"
    and b: "Type header = FrameWindowUpdate \<and> Length header = 4"
  from a have "\<not> length payload < 4"
    by (auto simp: Uint32_def split: if_splits)
  with a b show "ParseWindowUpdateFrame header payload
      = Inl (Errorf ''WINDOW_UPDATE_FRAME_ERROR: invalid increment value: %d'')"
    by (simp add: ParseWindowUpdateFrame_def)
next
  assume "WindowSizeIncrement f = 0x7FFFFFFF \<and> Type f = FrameWindowUpdate"
  then show "reparse ParseWindowUpdateFrame (WindowUpdateFrame_Serialize f)
          = Inr (f\<lparr>Length := 4, StreamID := StreamID f AND 0x7FFFFFFF\<rparr>)"
    using WindowUpdateFrame_roundtrip [of f] by (simp add: mask31)
qed

theorem C8_WindowUpdate_increment_range_witness:
  "WindowUpdateFrame_Serialize
      \<lparr>Length = 0, Type = 8, Flags = 0, StreamID = 3, WindowSizeIncrement = 0x7FFFFFFF\<rparr>
     = Inr (\<lparr>Length = 4, Type = 8, Flags = 0, StreamID = 3,
             WindowSizeIncrement = 0x7FFFFFFF\<rparr>,
            [0, 0, 4, 8, 0, 0, 0, 0, 3, 0x7F, 0xFF, 0xFF, 0xFF])
   \<and> Uint32 [0x80, 0, 0, 0] = Inr 0x80000000
   \<and> (0x80000000 :: uint32) AND 0x7FFFFFFF = 0
   \<and> ParseWindowUpdateFrame \<lparr>Length = 4, Type = 8, Flags = 0, StreamID = 3\<rparr> [0x80, 0, 0, 0]
       = Inl (Errorf ''WINDOW_UPDATE_FRAME_ERROR: invalid increment value: %d'')
   \<and> reparse ParseWindowUpdateFrame (WindowUpdateFrame_Serialize
         \<lparr>Length = 0, Type = 8, Flags = 0, StreamID = 3, WindowSizeIncrement = 0x7FFFFFFF\<rparr>)
       = Inr \<lparr>Length = 4, Type = 8, Flags = 0, StreamID = 3,
              WindowSizeIncrement = 0x7FFFFFFF\<rparr>"
proof -
  have u: "Uint32 [0x80, 0, 0, 0] = Inr 0x80000000"
    by (simp add: Uint32_def)
  have m: "(0x80000000 :: uint32) AND 0x7FFFFFFF = 0"
    by simp
  show ?thesis
    using C8_WindowUpdate_increment_range
            [of "\<lparr>Length = 0, Type = 8, Flags = 0, StreamID = 3,
                   WindowSizeIncrement = 0x7FFFFFFF\<rparr>"
                "[0x80, 0, 0, 0]" "0x80000000"
                "\<lparr>Length = 4, Type = 8, Flags = 0, StreamID = 3\<rparr>"]
          u m
    by (simp add: FrameWindowUpdate_def FrameHeader_Serialize_def be32_def reparse_def
          ParseFrameHeader_def ParseWindowUpdateFrame_def slice_def Uint32_def
          FrameHeader.extend_def WindowUpdateFrame.fields_def)
qed

text \<open>
  C8 as stated fails: the round trip of increment \<open>0x7FFFFFFF\<close> needs the header type.
  The window-update frame with that increment and the zero-value type 0 serializes
  successfully, type byte 0 included, and \<open>ParseWindowUpdateFrame\<close> rejects the result
  on its type.
\<close>

theorem C8_WindowUpdate_roundtrip_counterexample:
  "WindowUpdateFrame_Serialize
      \<lparr>Length = 0, Type = 0, Flags = 0, StreamID = 1, WindowSizeIncrement = 0x7FFFFFFF\<rparr>
     = Inr (\<lparr>Length = 4, Type = 0, Flags = 0, StreamID = 1,
             WindowSizeIncrement = 0x7FFFFFFF\<rparr>,
            [0, 0, 4, 0, 0, 0, 0, 0, 1, 0x7F, 0xFF, 0xFF, 0xFF])
   \<and> reparse ParseWindowUpdateFrame (WindowUpdateFrame_Serialize
         \<lparr>Length = 0, Type = 0, Flags = 0, StreamID = 1, WindowSizeIncrement = 0x7FFFFFFF\<rparr>)
       = Inl (Errorf ''WINDOW_UPDATE_FRAME_ERROR: expected frame type %d, got %d'')"
  by (simp add: WindowUpdateFrame_Serialize_eq FrameHeader_Serialize_def be32_def reparse_def
        ParseFrameHeader_def ParseWindowUpdateFrame_def slice_def Uint32_def
        FrameWindowUpdate_def)

section \<open>HEADERS\<close>

text \<open>
  C2 (the code at the failing input). A HEADERS frame with stream id 1, the PADDED flag,
  pad length 0 and a one-byte header block should have payload length
  \<open>1 + (1 + 0) = 2\<close>. \<open>HeadersFrame.Serialize\<close> assigns \<open>1 + PadLen\<close> to the payload
  length instead of adding it, so the length it stores and writes is 1, and the header
  block is not in the 10-byte buffer at all.
\<close>

theorem C2_HeadersFrame_padded_length:
  "HeadersFrame_Serialize
      \<lparr>Length = 0, Type = 1, Flags = 0x8, StreamID = 1, Headers_PadLen = 0,
       Exclusive = False, StreamDependency = 0, Weight = 0, HeaderBlock = [0x41]\<rparr>
   = Inr (\<lparr>Length = 1, Type = 1, Flags = 0x8, StreamID = 1, Headers_PadLen = 0,
           Exclusive = False, StreamDependency = 0, Weight = 0, HeaderBlock = [0x41]\<rparr>,
          [0, 0, 1, 1, 8, 0, 0, 0, 1, 0])"
  by (simp add: HeadersFrame_Serialize_def hasPad_def hasPriority_def frame_consts Let_def
        FrameHeader_Serialize_def be32_def make_def copy_def set_index_def)

text \<open>
  C10. \<open>ParseHeadersFrame\<close> and \<open>ParseSettingsFrame\<close> never look at the header's type:
  whatever \<open>Type\<close> is, \<open>ParseHeadersFrame\<close> succeeds as soon as the payload holds the
  pad-length byte and the priority block that the flags announce and at least as many
  further bytes as the pad length, and \<open>ParseSettingsFrame\<close> succeeds as soon as the
  stream id is 0 and the payload length is a multiple of 6; the parsed frame carries the
  header's type as it came. \<open>ParseDataFrame\<close>, \<open>ParsePingFrame\<close>,
  \<open>ParseWindowUpdateFrame\<close>, \<open>ParseRSTStreamFrame\<close> and \<open>ParseGoAwayFrame\<close> all fail
  when the type is not theirs.
\<close>

theorem C10_type_not_checked:
  "((if hasPad (Flags h) then 1 else 0) + (if hasPriority (Flags h) then 5 else 0)
      + (if hasPad (Flags h) then unat (payload ! 0) else 0) \<le> length payload
     \<longrightarrow> (\<exists>f. ParseHeadersFrame h payload = Inr f \<and> Type f = Type h))
   \<and> (StreamID h = 0 \<and> length payload mod 6 = 0
     \<longrightarrow> (\<exists>f. ParseSettingsFrame h payload = Inr f \<and> Type f = Type h))
   \<and> (Type h \<noteq> FrameData \<longrightarrow> (\<exists>e. ParseDataFrame h payload = Inl e))
   \<and> (Type h \<noteq> FramePing \<longrightarrow> (\<exists>e. ParsePingFrame h payload = Inl e))
   \<and> (Type h \<noteq> FrameWindowUpdate \<longrightarrow> (\<exists>e. ParseWindowUpdateFrame h payload = Inl e))
   \<and> (Type h \<noteq> FrameRSTStream \<longrightarrow> (\<exists>e. ParseRSTStreamFrame h payload = Inl e))
   \<and> (Type h \<noteq> FrameGoWay \<longrightarrow> (\<exists>e. ParseGoAwayFrame h payload spare = Inl e))"
proof (intro conjI impI)
  assume "(if hasPad (Flags h) then 1 else 0) + (if hasPriority (Flags h) then 5 else 0)
      + (if hasPad (Flags h) then unat (payload ! 0) else 0) \<le> length payload"
  then show "\<exists>f. ParseHeadersFrame h payload = Inr f \<and> Type f = Type h"
    by (rule ParseHeadersFrame_ok)
next
  assume "StreamID h = 0 \<and> length payload mod 6 = 0"
  then show "\<exists>f. ParseSettingsFrame h payload = Inr f \<and> Type f = Type h"
    using ParseSettingsFrame_ok [of h payload] by simp
next
  assume "Type h \<noteq> FrameData"
  then show "\<exists>e. ParseDataFrame h payload = Inl e"
    by (simp add: ParseDataFrame_def)
next
  assume "Type h \<noteq> FramePing"
  then show "\<exists>e. ParsePingFrame h payload = Inl e"
    by (simp add: ParsePingFrame_def)
next
  assume "Type h \<noteq> FrameWindowUpdate"
  then show "\<exists>e. ParseWindowUpdateFrame h payload = Inl e"
    by (simp add: ParseWindowUpdateFrame_def)
next
  assume "Type h \<noteq> FrameRSTStream"
  then show "\<exists>e. ParseRSTStreamFrame h payload = Inl e"
    by (simp add: ParseRSTStreamFrame_def)
next
  assume "Type h \<noteq> FrameGoWay"
  then show "\<exists>e. ParseGoAwayFrame h payload spare = Inl e"
    by (simp add: ParseGoAwayFrame_def)
qed

text \<open>
  C10 at a CONTINUATION header (type 9) with stream id 0 and a six-byte payload: the
  HEADERS and SETTINGS parsers accept it, the other five reject it.
\<close>

theorem C10_type_not_checked_witness:
  "(\<exists>f. ParseHeadersFrame \<lparr>Length = 6, Type = 9, Flags = 0, StreamID = 0\<rparr>
           [0, 1, 0, 0, 0x10, 0] = Inr f \<and> Type f = 9)
   \<and> (\<exists>f. ParseSettingsFrame \<lparr>Length = 6, Type = 9, Flags = 0, StreamID = 0\<rparr>
           [0, 1, 0, 0, 0x10, 0] = Inr f \<and> Type f = 9)
   \<and> (\<exists>e. ParseDataFrame \<lparr>Length = 6, Type = 9, Flags = 0, StreamID = 0\<rparr>
           [0, 1, 0, 0, 0x10, 0] = Inl e)
   \<and> (\<exists>e. ParsePingFrame \<lparr>Length = 6, Type = 9, Flags = 0, StreamID = 0\<rparr>
           [0, 1, 0, 0, 0x10, 0] = Inl e)
   \<and> (\<exists>e. ParseWindowUpdateFrame \<lparr>Length = 6, Type = 9, Flags = 0, StreamID = 0\<rparr>
           [0, 1, 0, 0, 0x10, 0] = Inl e)
   \<and> (\<exists>e. ParseRSTStreamFrame \<lparr>Length = 6, Type = 9, Flags = 0, StreamID = 0\<rparr>
           [0, 1, 0, 0, 0x10, 0] = Inl e)
   \<and> (\<exists>e. ParseGoAwayFrame \<lparr>Length = 6, Type = 9, Flags = 0, StreamID = 0\<rparr>
           [0, 1, 0, 0, 0x10, 0] [] = Inl e)"
  using C10_type_not_checked
          [of "\<lparr>Length = 6, Type = 9, Flags = 0, StreamID = 0\<rparr>" "[0, 1, 0, 0, 0x10, 0]" "[]"]
  by (simp add: frame_consts hasPad_def hasPriority_def)

section \<open>SETTINGS\<close>

text \<open>
  C5 (the code at the failing input). \<open>SettingsFrame.Serialize\<close> has no stream-id check:
  for a SETTINGS frame with stream id 1 and no settings it returns the 9-byte buffer, not
  an error. \<open>ParseSettingsFrame\<close> and \<open>PingFrame.Serialize\<close> do check the stream id.
\<close>

theorem C5_SettingsFrame_Serialize_accepts_stream_id:
  "SettingsFrame_Serialize
      \<lparr>Length = 0, Type = 4, Flags = 0, StreamID = 1, Settings = []\<rparr>
   = Inr (\<lparr>Length = 0, Type = 4, Flags = 0, StreamID = 1, Settings = []\<rparr>,
          [0, 0, 0, 4, 0, 0, 0, 0, 1])"
  by (simp add: SettingsFrame_Serialize_def Let_def FrameHeader_Serialize_def be32_def make_def
        copy_def)

section \<open>GOAWAY\<close>

text \<open>
  C3 (the code at the failing input). For the GOAWAY frame with stream id 0, last stream
  id 1, error code 2 and debug data \<open>AA BB CC DD\<close>, the payload should be
  \<open>00 00 00 01\<close>, \<open>00 00 00 02\<close>, \<open>AA BB CC DD\<close>. \<open>GoAwayFrame.Serialize\<close> writes the
  error code four bytes too far, where the debug data then overwrites it: payload bytes
  4 to 7 stay zero and the error code is not in the buffer.
\<close>

theorem C3_GoAwayFrame_error_code_lost:
  "GoAwayFrame_Serialize
      \<lparr>Length = 0, Type = 7, Flags = 0, StreamID = 0, LastStreamID = 1, ErrorCode = 2,
       DebugData = [0xAA, 0xBB, 0xCC, 0xDD]\<rparr>
   = Inr (\<lparr>Length = 12, Type = 7, Flags = 0, StreamID = 0, LastStreamID = 1, ErrorCode = 2,
           DebugData = [0xAA, 0xBB, 0xCC, 0xDD]\<rparr>,
          [0, 0, 12, 7, 0, 0, 0, 0, 0,
           0, 0, 0, 1,  0, 0, 0, 0,  0xAA, 0xBB, 0xCC, 0xDD])"
  by (simp add: GoAwayFrame_Serialize_def Let_def FrameHeader_Serialize_def be32_def make_def
        copy_def PutUint32_def replicate_numeral)

text \<open>
  C4 (the code at the failing input). Serializing a GOAWAY frame with stream id 0 and
  empty debug data should succeed with header length 8. The buffer is 17 bytes long and
  \<open>GoAwayFrame.Serialize\<close> slices it at \<open>[17:21]\<close> for the error code: the call panics.
\<close>

theorem C4_GoAwayFrame_empty_debug_data_panics:
  "GoAwayFrame_Serialize
      \<lparr>Length = 0, Type = 7, Flags = 0, StreamID = 0, LastStreamID = 1, ErrorCode = 2,
       DebugData = []\<rparr>
   = Inl (Panic ''slice bounds out of range'')"
  by (simp add: GoAwayFrame_Serialize_def Let_def FrameHeader_Serialize_def be32_def make_def
        copy_def PutUint32_def)

text \<open>
  C9 (the code at the failing input). \<open>ParseGoAwayFrame\<close> checks the length of the
  payload but trusts the header's \<open>Length\<close>: with \<open>Length = 9\<close> and an 8-byte payload of
  capacity 8 it slices \<open>payload[8:9]\<close> and panics.
\<close>

theorem C9_ParseGoAwayFrame_panics:
  "ParseGoAwayFrame \<lparr>Length = 9, Type = 7, Flags = 0, StreamID = 0\<rparr>
      [0, 0, 0, 0, 0, 0, 0, 0] []
   = Inl (Panic ''slice bounds out of range'')"
  by (simp add: ParseGoAwayFrame_def FrameGoWay_def slice_def Uint32_def Let_def make_def)

section \<open>Round trip\<close>

text \<open>
  C1 (as the code has it). A frame that serializes successfully comes back from
  \<open>ParseFrameHeader\<close> and its payload parser equal to itself in every field but the
  header's length, which is the one \<open>Serialize\<close> computed (cut to 24 bits for SETTINGS,
  whose size is never checked), provided the frame is one the wire format can carry:
  the reserved bit of the stream id is clear, and the stream id of a SETTINGS frame is 0
  (its parser requires that and its \<open>Serialize\<close> does not check it); the header's type
  is the one the parser checks for (DATA, PING, WINDOW_UPDATE, RST_STREAM); the pad
  length is 0 unless PADDED is set; the priority fields are at their zero values unless
  PRIORITY is set, and the stream dependency fits 31 bits; a PING carries its 8 bytes;
  data and header block are at most \<open>0xFFFFFF\<close> bytes long. This holds for DATA,
  SETTINGS, PING, WINDOW_UPDATE and RST_STREAM frames, and for HEADERS frames without the
  PADDED flag whose priority block, if any, is exclusive. Nothing is said here about
  padded HEADERS frames, non-exclusive priority blocks, or GOAWAY frames.
\<close>

theorem C1_roundtrip_up_to_length:
  "(DataFrame_Serialize d = Inr (d', bd) \<and> Type d = FrameData \<and> StreamID d \<le> 0x7FFFFFFF
      \<and> (Flags d AND FlagPadded = 0 \<longrightarrow> PadLen d = 0) \<and> length (Data d) \<le> 0xFFFFFF
     \<longrightarrow> reparse ParseDataFrame (DataFrame_Serialize d) = Inr (d\<lparr>Length := Length d'\<rparr>))
   \<and> (HeadersFrame_Serialize h = Inr (h', bh) \<and> StreamID h \<le> 0x7FFFFFFF
      \<and> \<not> hasPad (Flags h) \<and> Headers_PadLen h = 0
      \<and> (hasPriority (Flags h) \<longrightarrow> Exclusive h \<and> StreamDependency h \<le> 0x7FFFFFFF)
      \<and> (\<not> hasPriority (Flags h) \<longrightarrow>
            \<not> Exclusive h \<and> StreamDependency h = 0 \<and> Weight h = 0)
      \<and> length (HeaderBlock h) \<le> 0xFFFFFF
     \<longrightarrow> reparse ParseHeadersFrame (HeadersFrame_Serialize h) = Inr (h\<lparr>Length := Length h'\<rparr>))
   \<and> (SettingsFrame_Serialize s = Inr (s', bs) \<and> StreamID s = 0
     \<longrightarrow> reparse ParseSettingsFrame (SettingsFrame_Serialize s)
           = Inr (s\<lparr>Length := take_bit 24 (Length s')\<rparr>))
   \<and> (PingFrame_Serialize p = Inr (p', bp) \<and> Type p = FramePing \<and> length (Ping_Data p) = 8
     \<longrightarrow> reparse ParsePingFrame (PingFrame_Serialize p) = Inr (p\<lparr>Length := Length p'\<rparr>))
   \<and> (WindowUpdateFrame_Serialize w = Inr (w', bw) \<and> Type w = FrameWindowUpdate
      \<and> StreamID w \<le> 0x7FFFFFFF
     \<longrightarrow> reparse ParseWindowUpdateFrame (WindowUpdateFrame_Serialize w)
           = Inr (w\<lparr>Length := Length w'\<rparr>))
   \<and> (RSTStreamFrame_Serialize r = Inr (r', br) \<and> Type r = FrameRSTStream
      \<and> StreamID r \<le> 0x7FFFFFFF
     \<longrightarrow> reparse ParseRSTStreamFrame (RSTStreamFrame_Serialize r)
           = Inr (r\<lparr>Length := Length r'\<rparr>))"
proof (intro conjI impI; (elim conjE)?)
  assume ser: "DataFrame_Serialize d = Inr (d', bd)" and ty: "Type d = FrameData"
    and sid: "StreamID d \<le> 0x7FFFFFFF"
    and pad: "Flags d AND FlagPadded = 0 \<longrightarrow> PadLen d = 0"
    and len: "length (Data d) \<le> 0xFFFFFF"
  from DataFrame_Serialize_ok [OF ser len]
  have ok: "StreamID d \<noteq> 0" "DataFrame_size d \<le> 0xFFFFFF" by simp_all
  have d': "d' = d\<lparr>Length := of_nat (DataFrame_size d)\<rparr>"
    using ser DataFrame_Serialize_eq [OF ok] by simp
  have "(if Flags d AND FlagPadded \<noteq> 0 then PadLen d else 0) = PadLen d"
    using pad by simp
  then show "reparse ParseDataFrame (DataFrame_Serialize d) = Inr (d\<lparr>Length := Length d'\<rparr>)"
    using DataFrame_roundtrip [OF ok ty] take_bit_31_id [OF sid] by (simp add: d')
next
  assume ser: "HeadersFrame_Serialize h = Inr (h', bh)"
    and sid: "StreamID h \<le> 0x7FFFFFFF"
    and np: "\<not> hasPad (Flags h)" and pl: "Headers_PadLen h = 0"
    and pr: "hasPriority (Flags h) \<longrightarrow> Exclusive h \<and> StreamDependency h \<le> 0x7FFFFFFF"
    and npr: "\<not> hasPriority (Flags h) \<longrightarrow>
                \<not> Exclusive h \<and> StreamDependency h = 0 \<and> Weight h = 0"
    and len: "length (HeaderBlock h) \<le> 0xFFFFFF"
  let ?n = "length (HeaderBlock h) + (if hasPriority (Flags h) then 5 else 0)"
  from HeadersFrame_Serialize_ok [OF ser len np]
  have ok: "StreamID h \<noteq> 0" "?n \<le> 0xFFFFFF" by simp_all
  have h': "h' = h\<lparr>Length := of_nat ?n\<rparr>"
    using ser HeadersFrame_Serialize_unpadded [OF ok(1) np refl ok(2)] by simp
  have rt: "reparse ParseHeadersFrame (HeadersFrame_Serialize h) =
           Inr (if hasPriority (Flags h)
                then h\<lparr>Length := of_nat ?n, StreamID := take_bit 31 (StreamID h),
                       Headers_PadLen := 0,
                       Exclusive := (HeadersFrame_dep h AND 0x80000000 \<noteq> 0),
                       StreamDependency := HeadersFrame_dep h AND 0x7FFFFFFF\<rparr>
                else h\<lparr>Length := of_nat ?n, StreamID := take_bit 31 (StreamID h),
                       Headers_PadLen := 0, Exclusive := False, StreamDependency := 0,
                       Weight := 0\<rparr>)"
    by (rule HeadersFrame_roundtrip_unpadded [OF ok(1) np refl ok(2)])
  show "reparse ParseHeadersFrame (HeadersFrame_Serialize h) = Inr (h\<lparr>Length := Length h'\<rparr>)"
  proof (cases "hasPriority (Flags h)")
    case True
    with pr have ex: "Exclusive h" and sd: "StreamDependency h \<le> 0x7FFFFFFF" by simp_all
    have "HeadersFrame_dep h AND 0x80000000 \<noteq> 0"
      and "HeadersFrame_dep h AND 0x7FFFFFFF = StreamDependency h"
      using ex dep_exclusive [of "StreamDependency h"] take_bit_31_id [OF sd]
      by (simp_all add: HeadersFrame_dep_def)
    then show ?thesis
      unfolding rt using True ex pl take_bit_31_id [OF sid]
      by (cases h) (simp add: h')
  next
    case False
    with npr have "\<not> Exclusive h" "StreamDependency h = 0" "Weight h = 0" by simp_all
    then show ?thesis
      unfolding rt using False pl take_bit_31_id [OF sid]
      by (cases h) (simp add: h')
  qed
next
  assume ser: "SettingsFrame_Serialize s = Inr (s', bs)" and sid: "StreamID s = 0"
  have "s' = s\<lparr>Length := of_nat (length (Settings s) * 6)\<rparr>"
    using ser by (simp add: SettingsFrame_Serialize_eq)
  then show "reparse ParseSettingsFrame (SettingsFrame_Serialize s)
           = Inr (s\<lparr>Length := take_bit 24 (Length s')\<rparr>)"
    using SettingsFrame_roundtrip [OF sid] by simp
next
  assume ser: "PingFrame_Serialize p = Inr (p', bp)" and ty: "Type p = FramePing"
    and len: "length (Ping_Data p) = 8"
  have sid: "StreamID p = 0"
    using ser by (auto simp: PingFrame_Serialize_def split: if_splits)
  have "p' = p\<lparr>Length := 8\<rparr>"
    using ser by (simp add: PingFrame_Serialize_eq [OF sid len])
  then show "reparse ParsePingFrame (PingFrame_Serialize p) = Inr (p\<lparr>Length := Length p'\<rparr>)"
    using PingFrame_roundtrip [OF sid len ty] by simp
next
  assume ser: "WindowUpdateFrame_Serialize w = Inr (w', bw)"
    and ty: "Type w = FrameWindowUpdate" and sid: "StreamID w \<le> 0x7FFFFFFF"
  have inc: "WindowSizeIncrement w \<noteq> 0" "WindowSizeIncrement w \<le> 0x7FFFFFFF"
    and w': "w' = w\<lparr>Length := 4\<rparr>"
    using ser by (auto simp: WindowUpdateFrame_Serialize_eq not_less split: if_splits)
  show "reparse ParseWindowUpdateFrame (WindowUpdateFrame_Serialize w)
           = Inr (w\<lparr>Length := Length w'\<rparr>)"
    using WindowUpdateFrame_roundtrip [OF inc ty] take_bit_31_id [OF sid]
    by (cases w) (simp add: w')
next
  assume ser: "RSTStreamFrame_Serialize r = Inr (r', br)"
    and ty: "Type r = FrameRSTStream" and sid: "StreamID r \<le> 0x7FFFFFFF"
  have ec: "RST_ErrorCode r \<noteq> 0" and r': "r' = r\<lparr>Length := 4\<rparr>"
    using ser by (auto simp: RSTStreamFrame_Serialize_eq split: if_splits)
  show "reparse ParseRSTStreamFrame (RSTStreamFrame_Serialize r)
           = Inr (r\<lparr>Length := Length r'\<rparr>)"
    using RSTStreamFrame_roundtrip [OF ec ty] take_bit_31_id [OF sid]
    by (cases r) (simp add: r')
qed

text \<open>
  C1 at one frame of each kind: a padded DATA frame, a HEADERS frame with an exclusive
  priority block, a SETTINGS frame with one setting, a PING, a WINDOW_UPDATE and a
  RST_STREAM.
\<close>

theorem C1_roundtrip_up_to_length_witness:
  "reparse ParseDataFrame (DataFrame_Serialize
      \<lparr>Length = 0, Type = 0, Flags = 8, StreamID = 1, PadLen = 2, Data = [0x68, 0x69]\<rparr>)
     = Inr \<lparr>Length = 5, Type = 0, Flags = 8, StreamID = 1, PadLen = 2, Data = [0x68, 0x69]\<rparr>
   \<and> reparse ParseHeadersFrame (HeadersFrame_Serialize
      \<lparr>Length = 0, Type = 1, Flags = 0x20, StreamID = 1, Headers_PadLen = 0,
       Exclusive = True, StreamDependency = 3, Weight = 16, HeaderBlock = [0x41, 0x42]\<rparr>)
     = Inr \<lparr>Length = 7, Type = 1, Flags = 0x20, StreamID = 1, Headers_PadLen = 0,
            Exclusive = True, StreamDependency = 3, Weight = 16, HeaderBlock = [0x41, 0x42]\<rparr>
   \<and> reparse ParseSettingsFrame (SettingsFrame_Serialize
      \<lparr>Length = 0, Type = 4, Flags = 0, StreamID = 0,
       Settings = [\<lparr>ID = 1, Value = 0x1000\<rparr>]\<rparr>)
     = Inr \<lparr>Length = 6, Type = 4, Flags = 0, StreamID = 0,
            Settings = [\<lparr>ID = 1, Value = 0x1000\<rparr>]\<rparr>
   \<and> reparse ParsePingFrame (PingFrame_Serialize
      \<lparr>Length = 0, Type = 6, Flags = 0, StreamID = 0,
       Ping_Data = [1, 2, 3, 4, 5, 6, 7, 8]\<rparr>)
     = Inr \<lparr>Length = 8, Type = 6, Flags = 0, StreamID = 0,
            Ping_Data = [1, 2, 3, 4, 5, 6, 7, 8]\<rparr>
   \<and> reparse ParseWindowUpdateFrame (WindowUpdateFrame_Serialize
      \<lparr>Length = 0, Type = 8, Flags = 0, StreamID = 0, WindowSizeIncrement = 1\<rparr>)
     = Inr \<lparr>Length = 4, Type = 8, Flags = 0, StreamID = 0, WindowSizeIncrement = 1\<rparr>
   \<and> reparse ParseRSTStreamFrame (RSTStreamFrame_Serialize
      \<lparr>Length = 0, Type = 3, Flags = 0, StreamID = 5, RST_ErrorCode = 8\<rparr>)
     = Inr \<lparr>Length = 4, Type = 3, Flags = 0, StreamID = 5, RST_ErrorCode = 8\<rparr>"
  (is "reparse ParseDataFrame (DataFrame_Serialize ?d) = Inr ?d'
     \<and> reparse ParseHeadersFrame (HeadersFrame_Serialize ?h) = Inr ?h'
     \<and> reparse ParseSettingsFrame (SettingsFrame_Serialize ?s) = Inr ?s'
     \<and> reparse ParsePingFrame (PingFrame_Serialize ?p) = Inr ?p'
     \<and> reparse ParseWindowUpdateFrame (WindowUpdateFrame_Serialize ?w) = Inr ?w'
     \<and> reparse ParseRSTStreamFrame (RSTStreamFrame_Serialize ?r) = Inr ?r'")
proof -
  let ?bd = "[0, 0, 5, 0, 8, 0, 0, 0, 1, 2, 0x68, 0x69, 0, 0] :: uint8 list"
  let ?bh = "[0, 0, 7, 1, 0x20, 0, 0, 0, 1, 0x80, 0, 0, 3, 16, 0x41, 0x42] :: uint8 list"
  let ?bs = "[0, 0, 6, 4, 0, 0, 0, 0, 0, 0, 1, 0, 0, 0x10, 0] :: uint8 list"
  let ?bp = "[0, 0, 8, 6, 0, 0, 0, 0, 0, 1, 2, 3, 4, 5, 6, 7, 8] :: uint8 list"
  let ?bw = "[0, 0, 4, 8, 0, 0, 0, 0, 0, 0, 0, 0, 1] :: uint8 list"
  let ?br = "[0, 0, 4, 3, 0, 0, 0, 0, 5, 0, 0, 0, 8] :: uint8 list"
  have d: "DataFrame_Serialize ?d = Inr (?d', ?bd)"
    by (simp add: DataFrame_Serialize_def FrameHeader_Serialize_def be32_def make_def copy_def
          set_index_def FlagPadded_def FlagBit3_def Let_def replicate_numeral)
  have h: "HeadersFrame_Serialize ?h = Inr (?h', ?bh)"
    by (simp add: HeadersFrame_Serialize_def hasPad_def hasPriority_def frame_consts Let_def
          FrameHeader_Serialize_def be32_def make_def copy_def set_index_def PutUint32_def
          replicate_numeral)
  have s: "SettingsFrame_Serialize ?s = Inr (?s', ?bs)"
    by (simp add: SettingsFrame_Serialize_eq FrameHeader_Serialize_def be32_def be16_def
          Setting_bytes_def)
  have p: "PingFrame_Serialize ?p = Inr (?p', ?bp)"
    by (simp add: PingFrame_Serialize_eq FrameHeader_Serialize_def be32_def)
  have w: "WindowUpdateFrame_Serialize ?w = Inr (?w', ?bw)"
    by (simp add: WindowUpdateFrame_Serialize_eq FrameHeader_Serialize_def be32_def)
  have r: "RSTStreamFrame_Serialize ?r = Inr (?r', ?br)"
    by (simp add: RSTStreamFrame_Serialize_eq FrameHeader_Serialize_def be32_def)
  note t = C1_roundtrip_up_to_length
             [where d = ?d and d' = ?d' and bd = ?bd and h = ?h and h' = ?h' and bh = ?bh
                and s = ?s and s' = ?s' and bs = ?bs and p = ?p and p' = ?p' and bp = ?bp
                and w = ?w and w' = ?w' and bw = ?bw and r = ?r and r' = ?r' and br = ?br]
  have "reparse ParseDataFrame (DataFrame_Serialize ?d) = Inr ?d'"
    using t [THEN conjunct1] d by (simp add: frame_consts)
  moreover have "reparse ParseHeadersFrame (HeadersFrame_Serialize ?h) = Inr ?h'"
    using t [THEN conjunct2, THEN conjunct1] h by (simp add: frame_consts hasPad_def hasPriority_def)
  moreover have "reparse ParseSettingsFrame (SettingsFrame_Serialize ?s) = Inr ?s'"
    using t [THEN conjunct2, THEN conjunct2, THEN conjunct1] s by simp
  moreover have "reparse ParsePingFrame (PingFrame_Serialize ?p) = Inr ?p'"
    using t [THEN conjunct2, THEN conjunct2, THEN conjunct2, THEN conjunct1] p
    by (simp add: frame_consts)
  moreover have "reparse ParseWindowUpdateFrame (WindowUpdateFrame_Serialize ?w) = Inr ?w'"
    using t [THEN conjunct2, THEN conjunct2, THEN conjunct2, THEN conjunct2, THEN conjunct1] w
    by (simp add: frame_consts)
  moreover have "reparse ParseRSTStreamFrame (RSTStreamFrame_Serialize ?r) = Inr ?r'"
    using t [THEN conjunct2, THEN conjunct2, THEN conjunct2, THEN conjunct2, THEN conjunct2] r
    by (simp add: frame_consts)
  ultimately show ?thesis by blast
qed

text \<open>
  C1 as stated fails: the DATA frame with stream id \<open>0x80000001\<close> and pad length 7
  without the PADDED flag serializes successfully; parsed from its own bytes it has stream
  id 1 and pad length 0, and parsed with its in-memory header and the payload bytes it
  has pad length 0: fields other than the length differ.
\<close>

theorem C1_roundtrip_counterexample:
  "DataFrame_Serialize
      \<lparr>Length = 0, Type = 0, Flags = 0, StreamID = 0x80000001, PadLen = 7, Data = [0x68]\<rparr>
     = Inr (\<lparr>Length = 1, Type = 0, Flags = 0, StreamID = 0x80000001, PadLen = 7,
             Data = [0x68]\<rparr>,
            [0, 0, 1, 0, 0, 0, 0, 0, 1, 0x68])
   \<and> reparse ParseDataFrame (DataFrame_Serialize
      \<lparr>Length = 0, Type = 0, Flags = 0, StreamID = 0x80000001, PadLen = 7, Data = [0x68]\<rparr>)
     = Inr \<lparr>Length = 1, Type = 0, Flags = 0, StreamID = 1, PadLen = 0, Data = [0x68]\<rparr>
   \<and> ParseDataFrame \<lparr>Length = 1, Type = 0, Flags = 0, StreamID = 0x80000001\<rparr> [0x68]
     = Inr \<lparr>Length = 1, Type = 0, Flags = 0, StreamID = 0x80000001, PadLen = 0,
            Data = [0x68]\<rparr>
   \<and> (1 :: uint32) \<noteq> 0x80000001 \<and> (0 :: uint8) \<noteq> 7"
  by (simp add: DataFrame_Serialize_def FrameHeader_Serialize_def be32_def make_def copy_def
        FlagPadded_def FlagBit3_def Let_def reparse_def ParseFrameHeader_def slice_def
        Uint32_def ParseDataFrame_def FrameData_def FrameHeader.extend_def
        DataFrame.fields_def)

end
